theory Spec2Isabelle
  imports Complex_Main "HOL-Library.Sublist" "HOL-Library.AList"
begin

section \<open>Python values\<close>

text \<open>
  The server is Python. An exception is a value of type \<open>error\<close>, and a function that
  can raise returns \<open>error + 'a\<close> with \<open>Inl\<close> for the exception. Python's \<open>None\<close> is
  \<open>None\<close> of an option type.
\<close>

datatype error =
  TypeError | KeyError | ValueError | AttributeError | OverflowError | RuntimeError

text \<open>
  \<open>round(x)\<close>: to the nearest integer, a tie to the even neighbour. Python rounds the exact
  value of the float.
\<close>

definition py_round :: "real \<Rightarrow> int" where
  "py_round x =
     (let fl = \<lfloor>x\<rfloor>; df = x - of_int fl
      in if df < 1 / 2 then fl
         else if 1 / 2 < df then fl + 1
         else if even fl then fl else fl + 1)"

subsection \<open>Floats\<close>

text \<open>
  A Python float is an IEEE binary64 number. The finite ones are modelled as the real
  numbers they denote. \<open>fl x\<close> is the float nearest to the real \<open>x\<close>, a tie to the even
  significand: a significand of 53 bits at the exponent of \<open>x\<close>, and the fixed quantum
  \<open>2^-1074\<close> below \<open>2^-1022\<close>. Every arithmetic operation of the floats returns the
  exact result rounded by \<open>fl\<close>; so does \<open>math.sqrt\<close>, and \<open>float(s)\<close> on the number
  the string denotes.

  What is outside the model: infinities and NaN. The one place where the code raises on a
  result beyond the largest float is the power \<open>**\<close>, which raises \<open>OverflowError\<close>;
  that is modelled. \<open>x ** 2\<close> is the power function of the C library, which is within
  one unit in the last place of the square; it is modelled as the correctly rounded
  square. \<open>math.atan2\<close> and \<open>math.degrees\<close> are taken as the real functions, and the
  arithmetic of \<open>calculate_heading\<close> is exact: its result is rounded to a whole degree.
\<close>

definition fl_exponent :: "real \<Rightarrow> int" where
  "fl_exponent x = max \<lfloor>log 2 \<bar>x\<bar>\<rfloor> (- 1022)"

definition fl :: "real \<Rightarrow> real" where
  "fl x =
     (if x = 0 then 0
      else of_int (py_round (x / 2 powr of_int (fl_exponent x - 52)))
             * 2 powr of_int (fl_exponent x - 52))"

text \<open>A real that rounds beyond the largest float \<open>(2 - 2^-52) * 2^1023\<close>.\<close>

definition float_overflow :: "real \<Rightarrow> bool" where
  "float_overflow x = (2 ^ 1024 - 2 ^ 970 \<le> \<bar>x\<bar>)"

definition float_add :: "real \<Rightarrow> real \<Rightarrow> real" where
  "float_add a b = fl (a + b)"

definition float_sub :: "real \<Rightarrow> real \<Rightarrow> real" where
  "float_sub a b = fl (a - b)"

definition float_mul :: "real \<Rightarrow> real \<Rightarrow> real" where
  "float_mul a b = fl (a * b)"

definition float_div :: "real \<Rightarrow> real \<Rightarrow> real" where
  "float_div a b = fl (a / b)"

text \<open>\<open>x ** 2\<close>: raises \<open>OverflowError\<close> when the square rounds beyond the largest float.\<close>

definition float_pow2 :: "real \<Rightarrow> error + real" where
  "float_pow2 x = (if float_overflow (x * x) then Inl OverflowError else Inr (fl (x * x)))"

definition math_sqrt :: "real \<Rightarrow> real" where
  "math_sqrt x = fl (sqrt x)"

text \<open>
  \<open>round(x, 1)\<close>: the exact value of the float is rounded to one decimal, a tie to the
  even digit, and the float nearest to that decimal is returned.
\<close>

definition py_round1 :: "real \<Rightarrow> real" where
  "py_round1 x = fl (of_int (py_round (x * 10)) / 10)"

text \<open>\<open>math.atan2(y, x)\<close>, the angle of the point \<open>(x, y)\<close> in \<open>(-pi, pi]\<close>.\<close>

definition math_atan2 :: "real \<Rightarrow> real \<Rightarrow> real" where
  "math_atan2 y x =
     (if 0 < x then arctan (y / x)
      else if x < 0 then (if 0 \<le> y then arctan (y / x) + pi else arctan (y / x) - pi)
      else if 0 < y then pi / 2
      else if y < 0 then - (pi / 2)
      else 0)"

definition math_degrees :: "real \<Rightarrow> real" where
  "math_degrees x = x * 180 / pi"

text \<open>\<open>a % b\<close> on floats, for a positive \<open>b\<close>: the result lies in \<open>[0, b)\<close>.\<close>

definition py_fmod :: "real \<Rightarrow> real \<Rightarrow> real" where
  "py_fmod a b = a - b * of_int \<lfloor>a / b\<rfloor>"

text \<open>Truthiness of a number that may be \<open>None\<close>: \<open>None\<close> and zero are false.\<close>

definition truthy_real :: "real option \<Rightarrow> bool" where
  "truthy_real v = (case v of None \<Rightarrow> False | Some x \<Rightarrow> x \<noteq> 0)"

definition truthy_int :: "int option \<Rightarrow> bool" where
  "truthy_int v = (case v of None \<Rightarrow> False | Some x \<Rightarrow> x \<noteq> 0)"


section \<open>config.py\<close>

text \<open>The literal \<open>0.8\<close> is the float nearest to 0.8.\<close>

definition POS_FLUCTUATION_FILTER :: real where
  "POS_FLUCTUATION_FILTER = fl (8 / 10)"

definition ZONE_PIN_MAP :: "(string \<times> int) list" where
  "ZONE_PIN_MAP = [(''LZ1'', 2), (''LZ2'', 3), (''LZ3'', 14), (''LZ4'', 4)]"


section \<open>geometricFunctions.py\<close>

text \<open>
  A coordinates argument is \<open>None\<close> or a pair whose components are floats or \<open>None\<close>
  (\<open>createObject\<close> builds the pair \<open>(None, None)\<close> when the position streams are
  missing). Unpacking \<open>None\<close> and subtracting \<open>None\<close> both raise \<open>TypeError\<close>.
  \<open>calculate_distance\<close> evaluates \<open>(X2 - X1)**2\<close> before \<open>(Y2 - Y1)**2\<close>, so an
  exception of the first is the one raised.
\<close>

type_synonym coordinates = "(real option \<times> real option) option"

definition calculate_distance :: "coordinates \<Rightarrow> coordinates \<Rightarrow> error + real" where
  "calculate_distance coordinates_1 coordinates_2 =
     (case coordinates_1 of
        None \<Rightarrow> Inl TypeError
      | Some (X1, Y1) \<Rightarrow>
          (case coordinates_2 of
             None \<Rightarrow> Inl TypeError
           | Some (X2, Y2) \<Rightarrow>
               (case (X2, X1) of
                  (Some x2, Some x1) \<Rightarrow>
                    (case float_pow2 (float_sub x2 x1) of
                       Inl e \<Rightarrow> Inl e
                     | Inr sx \<Rightarrow>
                         (case (Y2, Y1) of
                            (Some y2, Some y1) \<Rightarrow>
                              (case float_pow2 (float_sub y2 y1) of
                                 Inl e \<Rightarrow> Inl e
                               | Inr sy \<Rightarrow>
                                   Inr (py_round1 (math_sqrt (float_add sx sy))))
                          | _ \<Rightarrow> Inl TypeError))
                | _ \<Rightarrow> Inl TypeError)))"

definition calculate_heading :: "coordinates \<Rightarrow> coordinates \<Rightarrow> error + int" where
  "calculate_heading coordinates_1 coordinates_2 =
     (case coordinates_1 of
        None \<Rightarrow> Inl TypeError
      | Some (Xstart, Ystart) \<Rightarrow>
          (case coordinates_2 of
             None \<Rightarrow> Inl TypeError
           | Some (Xend, Yend) \<Rightarrow>
               (case (Xstart, Ystart, Xend, Yend) of
                  (Some xs, Some ys, Some xe, Some ye) \<Rightarrow>
                    (let dx = xe - xs;
                         dy = ye - ys;
                         heading_rad = math_atan2 (- dy) dx;
                         heading_deg = math_degrees heading_rad;
                         heading_deg = py_fmod (90 - heading_deg) 360
                     in Inr (py_round heading_deg))
                | _ \<Rightarrow> Inl TypeError)))"

text \<open>
  \<open>calculate_angle\<close>: the heading it is given is an integer (a result of
  \<open>calculate_heading\<close>), so \<open>round\<close> of the difference is the difference.
\<close>

definition calculate_angle :: "coordinates \<Rightarrow> coordinates \<Rightarrow> int \<Rightarrow> error + int" where
  "calculate_angle myCoordinates othersCoordinates myHeading =
     (case myCoordinates of
        None \<Rightarrow> Inl TypeError
      | Some (X1, Y1) \<Rightarrow>
          (case othersCoordinates of
             None \<Rightarrow> Inl TypeError
           | Some (X2, Y2) \<Rightarrow>
               (case calculate_heading myCoordinates othersCoordinates of
                  Inl e \<Rightarrow> Inl e
                | Inr angleBetweenUs \<Rightarrow>
                    (let relative_angle = angleBetweenUs - myHeading
                     in Inr ((360 + relative_angle) mod 360)))))"

definition calculate_speed ::
  "coordinates \<Rightarrow> real \<Rightarrow> coordinates \<Rightarrow> real \<Rightarrow> error + real" where
  "calculate_speed coordinates_1 tmsStart coordinates_2 tmsEnd =
     (case calculate_distance coordinates_1 coordinates_2 of
        Inl e \<Rightarrow> Inl e
      | Inr dx \<Rightarrow>
          (let dt = float_sub tmsEnd tmsStart
           in if dt \<le> 0 then Inr 0
              else (let spd_MpSec = float_div dx dt;
                        spd_MpHr = float_mul spd_MpSec 3600;
                        spd_kMpHr = float_div spd_MpHr 1000
                    in Inr (py_round1 spd_kMpHr))))"


section \<open>The records of the locating service\<close>

text \<open>
  One data stream of a tag record. \<open>s_id\<close> is the value under the key \<open>id\<close> (\<open>None\<close>: the
  key is absent). \<open>s_current_value\<close> is what \<open>stream['current_value'].strip()\<close> gives
  to \<open>float\<close>: the number the string denotes, or the exception raised (KeyError for an
  absent key, ValueError for a string that is not a number). \<open>s_at\<close> is the time string
  under the key \<open>at\<close>: absent or empty, one that \<open>strptime\<close> rejects, or one that
  denotes the time stamp given (the float that \<open>timestamp()\<close> returns).
\<close>

datatype at_value = AtNone | AtBad | AtTime real

record stream =
  s_id :: "string option"
  s_current_value :: "error + real"
  s_at :: at_value

text \<open>
  One tag record of a snapshot. \<open>d_id\<close> is the outcome of \<open>int(result['id'])\<close> (\<open>None\<close>:
  it raises), \<open>d_alias\<close> the value under \<open>alias\<close> (\<open>None\<close>: absent), \<open>datastreams\<close> the
  list under \<open>datastreams\<close> (empty when the key is absent), \<open>zones\<close> the zone names under
  \<open>zones\<close> (a zone without a name counts as the empty name, as \<open>zone.get('zone_name', '')\<close>
  reads it).
\<close>

record data =
  d_id :: "int option"
  d_alias :: "string option"
  datastreams :: "stream list"
  zones :: "string list"


section \<open>dataProcessing.py\<close>

text \<open>The dictionary under the key \<open>his\<close>, with its keys \<open>pos\<close> and \<open>tms\<close>.\<close>

record his_rec =
  h_pos :: coordinates
  h_tms :: "real option"

text \<open>A vector: the keys \<open>d\<close> (direction), \<open>r\<close> (radius) and \<open>f\<close> (fuzzy).\<close>

record vector =
  v_d :: int
  v_r :: real
  v_f :: bool

text \<open>The tracked object, a dictionary with a fixed set of keys.\<close>

record obj =
  aka :: string
  soc :: "unit option"
  pos :: coordinates
  tms :: "real option"
  his :: his_rec
  spd :: "real option"
  hdg :: "int option"
  mvz :: "string list"
  liz :: "string list"
  bsz :: "string list"
  vct :: "vector list"

fun extract_pos_loop :: "stream list \<Rightarrow> string \<Rightarrow> error + real option" where
  "extract_pos_loop [] pos_id = Inr None"
| "extract_pos_loop (s # rest) pos_id =
     (case s_id s of
        None \<Rightarrow> Inl KeyError
      | Some i \<Rightarrow>
          if i = pos_id
          then (case s_current_value s of Inl e \<Rightarrow> Inl e | Inr v \<Rightarrow> Inr (Some (fl v)))
          else extract_pos_loop rest pos_id)"

definition extract_pos :: "data \<Rightarrow> string \<Rightarrow> error + real option" where
  "extract_pos response pos_id = extract_pos_loop (datastreams response) pos_id"

definition extract_zone_names :: "data \<Rightarrow> string \<Rightarrow> string list" where
  "extract_zone_names response zone_type =
     filter (\<lambda>zone_name. prefix zone_type zone_name) (zones response)"

fun extract_tms_loop :: "stream list \<Rightarrow> real option \<Rightarrow> real option" where
  "extract_tms_loop [] max_timestamp = max_timestamp"
| "extract_tms_loop (s # rest) max_timestamp =
     (if s_id s = Some ''posY'' \<or> s_id s = Some ''posX''
      then (case s_at s of
              AtTime current_timestamp \<Rightarrow>
                (case max_timestamp of
                   None \<Rightarrow> extract_tms_loop rest (Some current_timestamp)
                 | Some m \<Rightarrow>
                     if m < current_timestamp
                     then extract_tms_loop rest (Some current_timestamp)
                     else extract_tms_loop rest max_timestamp)
            | AtBad \<Rightarrow> extract_tms_loop rest max_timestamp
            | AtNone \<Rightarrow> extract_tms_loop rest max_timestamp)
      else extract_tms_loop rest max_timestamp)"

definition extract_tms :: "data \<Rightarrow> real option" where
  "extract_tms response = extract_tms_loop (datastreams response) None"

definition createObject :: "int \<Rightarrow> data \<Rightarrow> error + obj" where
  "createObject ident dat =
     (case extract_pos dat ''posX'' of
        Inl e \<Rightarrow> Inl e
      | Inr px \<Rightarrow>
     (case extract_pos dat ''posY'' of
        Inl e \<Rightarrow> Inl e
      | Inr py \<Rightarrow>
     (case d_alias dat of
        None \<Rightarrow> Inl KeyError
      | Some a \<Rightarrow>
          Inr \<lparr> aka = a, soc = None, pos = Some (px, py), tms = extract_tms dat,
                his = \<lparr> h_pos = None, h_tms = None \<rparr>,
                spd = None, hdg = None,
                mvz = extract_zone_names dat ''M'',
                liz = extract_zone_names dat ''L'',
                bsz = extract_zone_names dat ''B'',
                vct = [] \<rparr>)))"

text \<open>
  \<open>updateObject\<close>. The test of line 72 calls \<open>calculate_distance\<close> before it looks at
  \<open>obj.get('pos') == None\<close>, so an exception of the call leaves the function before the
  second disjunct is read. In \<open>pos and his_pos and pos != his_pos\<close> the new \<open>pos\<close> is a
  pair, which is always true.
\<close>

definition updateObject :: "obj \<Rightarrow> data \<Rightarrow> error + obj" where
  "updateObject ob dat =
     (case extract_pos dat ''posX'' of
        Inl e \<Rightarrow> Inl e
      | Inr qx \<Rightarrow>
     (case extract_pos dat ''posY'' of
        Inl e \<Rightarrow> Inl e
      | Inr qy \<Rightarrow>
     (case calculate_distance (Some (qx, qy)) (pos ob) of
        Inl e \<Rightarrow> Inl e
      | Inr moved \<Rightarrow>
     (case
        (if POS_FLUCTUATION_FILTER \<le> moved \<or> pos ob = None
         then
           (case extract_pos dat ''posX'' of
              Inl e \<Rightarrow> Inl e
            | Inr px \<Rightarrow>
           (case extract_pos dat ''posY'' of
              Inl e \<Rightarrow> Inl e
            | Inr py \<Rightarrow>
           (let pos' = Some (px, py);
                tms' = extract_tms dat;
                his_pos = pos ob;
                his_tms = tms ob
            in
           (case
              (if truthy_real tms' \<and> truthy_real his_tms
               then calculate_speed his_pos (the his_tms) pos' (the tms')
               else Inr 0) of
              Inl e \<Rightarrow> Inl e
            | Inr spd' \<Rightarrow>
           (case
              (if his_pos \<noteq> None \<and> pos' \<noteq> his_pos
               then (case calculate_heading his_pos pos' of
                       Inl e \<Rightarrow> Inl e
                     | Inr h \<Rightarrow> Inr (Some h))
               else Inr (hdg ob)) of
              Inl e \<Rightarrow> Inl e
            | Inr hdg' \<Rightarrow>
                Inr (ob\<lparr> pos := pos', tms := tms',
                         his := \<lparr> h_pos = his_pos, h_tms = his_tms \<rparr>,
                         spd := Some spd', hdg := hdg' \<rparr>))))))
         else Inr ob) of
        Inl e \<Rightarrow> Inl e
      | Inr ob1 \<Rightarrow>
          Inr (ob1\<lparr> mvz := extract_zone_names dat ''M'',
                    liz := extract_zone_names dat ''L'',
                    bsz := extract_zone_names dat ''B'',
                    vct := [] \<rparr>)))))"

text \<open>
  \<open>create_vector\<close>. \<open>if my_hdg\<close> is Python truthiness: a heading of \<open>None\<close> and a
  heading of 0 both take the \<open>else\<close> branch.
\<close>

definition create_vector :: "obj \<Rightarrow> obj \<Rightarrow> error + vector" where
  "create_vector ob other_obj =
     (let my_pos = pos ob;
          my_hdg = hdg ob;
          other_pos = pos other_obj
      in
     (case
        (if truthy_int my_hdg then calculate_angle my_pos other_pos (the my_hdg)
         else Inr (- 1)) of
        Inl e \<Rightarrow> Inl e
      | Inr direction0 \<Rightarrow>
     (let contactIsFuzzy = (bsz other_obj \<noteq> []);
          direction = (if bsz ob \<noteq> [] \<and> bsz other_obj \<noteq> [] then - 1 else direction0)
      in
     (case calculate_distance my_pos other_pos of
        Inl e \<Rightarrow> Inl e
      | Inr radius \<Rightarrow>
          Inr \<lparr> v_d = direction, v_r = radius, v_f = contactIsFuzzy \<rparr>))))"


section \<open>awacs_server.py\<close>

text \<open>
  The registry \<open>obj_dict\<close> is a Python dictionary from identifiers to objects. It is an
  association list in insertion order; \<open>AList.update\<close> replaces the value of a key that is
  present in place and appends a new key at the end, as an assignment to
  \<open>obj_dict[k]\<close> does. The response of \<open>GetAllTags\<close> is \<open>None\<close> (the request failed) or
  the list under \<open>results\<close>.

  Each stage wraps its body in \<open>try ... except Exception\<close> and prints the exception. The
  functions named \<open>..._try\<close> are the bodies: they return the registry as the exception
  left it, and the exception if one was raised.
\<close>

type_synonym obj_dict = "(int \<times> obj) list"

fun initialize_loop :: "obj_dict \<Rightarrow> data list \<Rightarrow> obj_dict \<times> error option" where
  "initialize_loop obj_dict [] = (obj_dict, None)"
| "initialize_loop obj_dict (result # rest) =
     (case d_id result of
        None \<Rightarrow> (obj_dict, Some KeyError)
      | Some result_id \<Rightarrow>
          (case createObject result_id result of
             Inl e \<Rightarrow> (obj_dict, Some e)
           | Inr ob \<Rightarrow> initialize_loop (AList.update result_id ob obj_dict) rest))"

definition initialize_objects_try :: "data list option \<Rightarrow> obj_dict \<times> error option" where
  "initialize_objects_try response =
     (case response of
        None \<Rightarrow> ([], Some AttributeError)
      | Some results \<Rightarrow> initialize_loop [] results)"

definition initialize_objects :: "data list option \<Rightarrow> obj_dict" where
  "initialize_objects response = fst (initialize_objects_try response)"

fun update_loop :: "obj_dict \<Rightarrow> data list \<Rightarrow> obj_dict \<times> error option" where
  "update_loop obj_dict [] = (obj_dict, None)"
| "update_loop obj_dict (result # rest) =
     (case d_id result of
        None \<Rightarrow> (obj_dict, Some KeyError)
      | Some result_id \<Rightarrow>
          (case map_of obj_dict result_id of
             None \<Rightarrow> update_loop obj_dict rest
           | Some ob \<Rightarrow>
               (case updateObject ob result of
                  Inl e \<Rightarrow> (obj_dict, Some e)
                | Inr ob' \<Rightarrow> update_loop (AList.update result_id ob' obj_dict) rest)))"

definition update_objects_try :: "obj_dict \<Rightarrow> data list option \<Rightarrow> obj_dict \<times> error option" where
  "update_objects_try obj_dict response =
     (case response of
        None \<Rightarrow> (obj_dict, Some AttributeError)
      | Some results \<Rightarrow> update_loop obj_dict results)"

definition update_objects :: "obj_dict \<Rightarrow> data list option \<Rightarrow> obj_dict" where
  "update_objects obj_dict response = fst (update_objects_try obj_dict response)"

text \<open>The inner loop of \<open>create_vectors\<close>: the vectors of one object to all the others.\<close>

fun vectors_array :: "obj \<Rightarrow> int \<Rightarrow> obj_dict \<Rightarrow> error + vector list" where
  "vectors_array this this_id [] = Inr []"
| "vectors_array this this_id ((other_id, other_obj) # rest) =
     (if other_id \<noteq> this_id
      then (case create_vector this other_obj of
              Inl e \<Rightarrow> Inl e
            | Inr v \<Rightarrow>
                (case vectors_array this this_id rest of
                   Inl e \<Rightarrow> Inl e
                 | Inr vs \<Rightarrow> Inr (v # vs)))
      else vectors_array this this_id rest)"

fun create_vectors_loop :: "obj_dict \<Rightarrow> int list \<Rightarrow> obj_dict \<times> error option" where
  "create_vectors_loop obj_dict [] = (obj_dict, None)"
| "create_vectors_loop obj_dict (this_id # ids) =
     (case map_of obj_dict this_id of
        None \<Rightarrow> (obj_dict, Some KeyError)
      | Some this \<Rightarrow>
          (case vectors_array this this_id obj_dict of
             Inl e \<Rightarrow> (obj_dict, Some e)
           | Inr vs \<Rightarrow>
               create_vectors_loop (AList.update this_id (this\<lparr> vct := vs \<rparr>) obj_dict) ids))"

definition create_vectors_try :: "obj_dict \<Rightarrow> obj_dict \<times> error option" where
  "create_vectors_try obj_dict = create_vectors_loop obj_dict (map fst obj_dict)"

definition create_vectors :: "obj_dict \<Rightarrow> obj_dict" where
  "create_vectors obj_dict = fst (create_vectors_try obj_dict)"

text \<open>
  \<open>send_telemetry\<close> publishes every object; a failed publish is caught and printed.
  \<open>pub_ok\<close> says for which topics the broker accepts the message; the result is the list
  of messages delivered.
\<close>

definition send_telemetry :: "obj_dict \<Rightarrow> (int \<Rightarrow> bool) \<Rightarrow> (int \<times> obj) list" where
  "send_telemetry obj_dict pub_ok = filter (\<lambda>(key, val). pub_ok key) obj_dict"


section \<open>lightsController_gpioserver.py\<close>

text \<open>
  What one \<open>requests.post\<close> to the GPIO server does: it is acknowledged, it raises a
  \<open>RequestException\<close> (which \<open>raise_for_status\<close> also raises on an error status), or it
  raises an exception of another class. \<open>_control_light_pin\<close> catches the
  \<open>RequestException\<close> only.
\<close>

datatype post_outcome = Acked | RequestException | OtherException error

definition control_light_pin ::
  "(int \<Rightarrow> bool \<Rightarrow> post_outcome) \<Rightarrow> int \<Rightarrow> bool \<Rightarrow> error + unit" where
  "control_light_pin post pin state =
     (case post pin state of
        Acked \<Rightarrow> Inr ()
      | RequestException \<Rightarrow> Inr ()
      | OtherException e \<Rightarrow> Inl e)"

fun set_all_lights_loop ::
  "(int \<Rightarrow> bool \<Rightarrow> post_outcome) \<Rightarrow> int list \<Rightarrow> bool \<Rightarrow> error + unit" where
  "set_all_lights_loop post [] state = Inr ()"
| "set_all_lights_loop post (pin # pins) state =
     (case control_light_pin post pin state of
        Inl e \<Rightarrow> Inl e
      | Inr u \<Rightarrow> set_all_lights_loop post pins state)"

definition set_all_lights :: "(int \<Rightarrow> bool \<Rightarrow> post_outcome) \<Rightarrow> bool \<Rightarrow> error + unit" where
  "set_all_lights post state = set_all_lights_loop post (map snd ZONE_PIN_MAP) state"

definition penetrated_zones :: "obj_dict \<Rightarrow> string set" where
  "penetrated_zones objects = set (concat (map (\<lambda>(key, ob). liz ob) objects))"

text \<open>
  \<open>check_zones\<close> returns the commands \<open>(pin, state)\<close> it gave to \<open>_control_light_pin\<close>,
  in order, or the exception that left one of the calls.
\<close>

fun check_zones_loop ::
  "string set \<Rightarrow> (int \<Rightarrow> bool \<Rightarrow> post_outcome) \<Rightarrow> (string \<times> int) list
     \<Rightarrow> error + (int \<times> bool) list" where
  "check_zones_loop pz post [] = Inr []"
| "check_zones_loop pz post ((zone, pin) # rest) =
     (case control_light_pin post pin (zone \<notin> pz) of
        Inl e \<Rightarrow> Inl e
      | Inr u \<Rightarrow>
          (case check_zones_loop pz post rest of
             Inl e \<Rightarrow> Inl e
           | Inr cmds \<Rightarrow> Inr ((pin, zone \<notin> pz) # cmds)))"

definition check_zones ::
  "obj_dict \<Rightarrow> (int \<Rightarrow> bool \<Rightarrow> post_outcome) \<Rightarrow> error + (int \<times> bool) list" where
  "check_zones objects post = check_zones_loop (penetrated_zones objects) post ZONE_PIN_MAP"


section \<open>The main loop\<close>

text \<open>
  What the collaborators do during one cycle: the response of \<open>GetAllTags\<close>, the behaviour
  of the GPIO server and of the broker. \<open>main\<close> is \<open>try: ... while True: ... except
  Exception\<close>: the \<open>try\<close> encloses the loop, so an exception that leaves a stage leaves
  the loop, is printed, and \<open>main\<close> returns. The list of cycle environments is the time
  the process is observed: \<open>LoopRunning\<close> says the loop is still running at its end.
\<close>

record cycle_env =
  fetched :: "data list option"
  gpio_post :: "int \<Rightarrow> bool \<Rightarrow> post_outcome"
  pub_ok :: "int \<Rightarrow> bool"

datatype exit = LoopRunning | MainError error

fun working_loop :: "obj_dict \<Rightarrow> cycle_env list \<Rightarrow> nat \<Rightarrow> exit \<times> obj_dict \<times> nat" where
  "working_loop obj_dict [] n = (LoopRunning, obj_dict, n)"
| "working_loop obj_dict (env # envs) n =
     (let obj_dict1 = update_objects obj_dict (fetched env);
          obj_dict2 = create_vectors obj_dict1
      in (case check_zones obj_dict2 (gpio_post env) of
            Inl e \<Rightarrow> (MainError e, obj_dict2, n)
          | Inr cmds \<Rightarrow>
              (let sent = send_telemetry obj_dict2 (pub_ok env)
               in working_loop obj_dict2 envs (Suc n))))"

definition main :: "cycle_env \<Rightarrow> cycle_env list \<Rightarrow> exit \<times> obj_dict \<times> nat" where
  "main startup envs =
     (case set_all_lights (gpio_post startup) False of
        Inl e \<Rightarrow> (MainError e, [], 0)
      | Inr u \<Rightarrow>
          (case set_all_lights (gpio_post startup) True of
             Inl e \<Rightarrow> (MainError e, [], 0)
           | Inr u' \<Rightarrow> working_loop (initialize_objects (fetched startup)) envs 0))"


section \<open>Example inputs\<close>

text \<open>
  A well-formed record of the tag \<open>ident\<close> at \<open>(x, y)\<close>, both streams stamped \<open>t\<close>, in no
  zone; the same record with no time strings; a record without position streams; an
  object at \<open>(x, y)\<close> with a time stamp, a
  speed and a heading; and the object \<open>createObject\<close> builds from a record without position
  streams.
\<close>

definition data_at :: "int \<Rightarrow> real \<Rightarrow> real \<Rightarrow> real \<Rightarrow> data" where
  "data_at ident x y t =
     \<lparr> d_id = Some ident, d_alias = Some ''tag'',
       datastreams =
         [\<lparr> s_id = Some ''posX'', s_current_value = Inr x, s_at = AtTime t \<rparr>,
          \<lparr> s_id = Some ''posY'', s_current_value = Inr y, s_at = AtTime t \<rparr>],
       zones = [] \<rparr>"

definition data_no_tms :: "int \<Rightarrow> real \<Rightarrow> real \<Rightarrow> data" where
  "data_no_tms ident x y =
     \<lparr> d_id = Some ident, d_alias = Some ''tag'',
       datastreams =
         [\<lparr> s_id = Some ''posX'', s_current_value = Inr x, s_at = AtNone \<rparr>,
          \<lparr> s_id = Some ''posY'', s_current_value = Inr y, s_at = AtNone \<rparr>],
       zones = [] \<rparr>"

definition data_no_pos :: "int \<Rightarrow> data" where
  "data_no_pos ident =
     \<lparr> d_id = Some ident, d_alias = Some ''tag'', datastreams = [], zones = [] \<rparr>"

definition obj_at :: "real \<Rightarrow> real \<Rightarrow> real option \<Rightarrow> real option \<Rightarrow> int option \<Rightarrow> obj" where
  "obj_at x y t s h =
     \<lparr> aka = ''tag'', soc = None, pos = Some (Some x, Some y), tms = t,
       his = \<lparr> h_pos = None, h_tms = None \<rparr>, spd = s, hdg = h,
       mvz = [], liz = [], bsz = [], vct = [] \<rparr>"

definition obj_no_pos :: obj where
  "obj_no_pos =
     \<lparr> aka = ''tag'', soc = None, pos = Some (None, None), tms = None,
       his = \<lparr> h_pos = None, h_tms = None \<rparr>, spd = None, hdg = None,
       mvz = [], liz = [], bsz = [], vct = [] \<rparr>"

text \<open>
  The object that was created at \<open>(0, 0)\<close> at time 10 and has moved to \<open>(10, 0)\<close> at
  time 20: its speed is the float of 3.6 and its heading 90.
\<close>

definition obj_moving :: obj where
  "obj_moving =
     \<lparr> aka = ''tag'', soc = None, pos = Some (Some 10, Some 0), tms = Some 20,
       his = \<lparr> h_pos = Some (Some 0, Some 0), h_tms = Some 10 \<rparr>,
       spd = Some (fl (18 / 5)), hdg = Some 90,
       mvz = [], liz = [], bsz = [], vct = [] \<rparr>"


text \<open>
  Cycle environments: every collaborator answering; every collaborator failing in the way
  the stages catch; the GPIO request raising an exception that is not a
  \<open>RequestException\<close>; a start-up snapshot with a tag without position streams, and a
  later snapshot that reports its position. And an object inside the light zone \<open>LZ2\<close>.
\<close>

definition env_ok :: cycle_env where
  "env_ok = \<lparr> fetched = Some [], gpio_post = (\<lambda>pin state. Acked), pub_ok = (\<lambda>key. True) \<rparr>"

definition env_down :: cycle_env where
  "env_down = \<lparr> fetched = None, gpio_post = (\<lambda>pin state. RequestException),
                 pub_ok = (\<lambda>key. False) \<rparr>"

definition env_fault :: cycle_env where
  "env_fault = \<lparr> fetched = Some [], gpio_post = (\<lambda>pin state. OtherException RuntimeError),
                  pub_ok = (\<lambda>key. True) \<rparr>"

definition obj_in_LZ2 :: obj where
  "obj_in_LZ2 = (obj_at 0 0 (Some 5) (Some 0) None)\<lparr> liz := [''LZ2''] \<rparr>"

definition env_start_no_pos :: cycle_env where
  "env_start_no_pos = \<lparr> fetched = Some [data_no_pos 1], gpio_post = (\<lambda>pin state. Acked),
                         pub_ok = (\<lambda>key. True) \<rparr>"

definition env_update :: cycle_env where
  "env_update = \<lparr> fetched = Some [data_at 1 1 2 10], gpio_post = (\<lambda>pin state. Acked),
                   pub_ok = (\<lambda>key. True) \<rparr>"


section \<open>Rounding to the nearest float\<close>

lemma py_round_of_int: "py_round (of_int k) = k"
  by (simp add: py_round_def)

lemma fl_exponent_normal:
  assumes "2 powr of_int e \<le> \<bar>x\<bar>" and "\<bar>x\<bar> < 2 powr of_int (e + 1)" and "- 1022 \<le> e"
  shows "fl_exponent x = e"
proof -
  have "0 < (2::real) powr of_int e" by simp
  with assms(1) have "0 < \<bar>x\<bar>" by linarith
  then have "\<lfloor>log 2 \<bar>x\<bar>\<rfloor> = e"
    using assms(1,2) floor_log_eq_powr_iff [of "\<bar>x\<bar>" 2 e] by simp
  with assms(3) show ?thesis by (simp add: fl_exponent_def)
qed

lemma fl_eval:
  assumes "2 powr of_int e \<le> \<bar>x\<bar>" and "\<bar>x\<bar> < 2 powr of_int (e + 1)" and "- 1022 \<le> e"
  shows "fl x = of_int (py_round (x / 2 powr of_int (e - 52))) * 2 powr of_int (e - 52)"
proof -
  have "0 < (2::real) powr of_int e" by simp
  with assms(1) have "x \<noteq> 0" by auto
  with fl_exponent_normal [OF assms] show ?thesis by (simp add: fl_def)
qed

lemma two_powr_nat: "2 powr of_int (int n) = (2::real) ^ n"
  by (simp add: powr_realpow)

lemma two_powr_neg_nat: "2 powr of_int (- int n) = 1 / (2::real) ^ n"
  by (simp add: powr_minus powr_realpow inverse_eq_divide)

lemma two_powr_succ: "(2::real) powr of_int (e + 1) = 2 * 2 powr of_int e"
proof -
  have "2 powr (of_int e + 1) = 2 powr of_int e * 2 powr (1::real)"
    by (rule powr_add)
  then show ?thesis by simp
qed

lemma fl_eval_ge1:
  assumes "2 ^ n \<le> \<bar>x\<bar>" and "\<bar>x\<bar> < 2 * 2 ^ n" and "n \<le> 52"
  shows "fl x = of_int (py_round (x * 2 ^ (52 - n))) / 2 ^ (52 - n)"
proof -
  from assms(3) have "int n - 52 = - int (52 - n)" by simp
  then have q: "2 powr of_int (int n - 52) = 1 / (2::real) ^ (52 - n)"
    by (simp only: two_powr_neg_nat)
  have a: "2 powr of_int (int n) \<le> \<bar>x\<bar>"
    using assms(1) by (simp only: two_powr_nat)
  have b: "\<bar>x\<bar> < 2 powr of_int (int n + 1)"
    using assms(2) by (simp only: two_powr_succ two_powr_nat)
  have c: "- 1022 \<le> int n" by simp
  from fl_eval [OF a b c] show ?thesis by (simp only: q) simp
qed

lemma fl_eval_lt1:
  assumes "1 \<le> \<bar>x\<bar> * 2 ^ n" and "\<bar>x\<bar> * 2 ^ n < 2" and "n \<le> 1022"
  shows "fl x = of_int (py_round (x * 2 ^ (n + 52))) / 2 ^ (n + 52)"
proof -
  have "- int n - 52 = - int (n + 52)" by simp
  then have q: "2 powr of_int (- int n - 52) = 1 / (2::real) ^ (n + 52)"
    by (simp only: two_powr_neg_nat)
  have pos: "0 < (2::real) ^ n" by simp
  have a: "2 powr of_int (- int n) \<le> \<bar>x\<bar>"
    unfolding two_powr_neg_nat using assms(1) pos by (simp add: divide_le_eq)
  have b: "\<bar>x\<bar> < 2 powr of_int (- int n + 1)"
    unfolding two_powr_succ two_powr_neg_nat using assms(2) pos by (simp add: less_divide_eq)
  from assms(3) have c: "- 1022 \<le> - int n" by simp
  from fl_eval [OF a b c] show ?thesis by (simp only: q) simp
qed

lemma py_round_minus: "py_round (- x) = - py_round x"
proof (cases "x = of_int \<lfloor>x\<rfloor>")
  case True
  then obtain k where "x = of_int k" ..
  then have "py_round x = k" "py_round (- x) = - k"
    using py_round_of_int [of k] py_round_of_int [of "- k"] by simp_all
  then show ?thesis by simp
next
  case False
  have "\<lfloor>- x\<rfloor> = - \<lceil>x\<rceil>" by (simp add: ceiling_def)
  also have "\<lceil>x\<rceil> = \<lfloor>x\<rfloor> + 1" using False by (simp add: ceiling_altdef)
  finally have f: "\<lfloor>- x\<rfloor> = - \<lfloor>x\<rfloor> - 1" by simp
  show ?thesis
    unfolding py_round_def Let_def f
    by (auto simp: algebra_simps)
qed

lemma fl_exponent_minus: "fl_exponent (- x) = fl_exponent x"
  by (simp add: fl_exponent_def)

lemma fl_minus: "fl (- x) = - fl x"
  by (simp add: fl_def fl_exponent_minus py_round_minus)

lemma fl_zero: "fl 0 = 0"
  by (simp add: fl_def)

lemma fl_exact:
  assumes x: "x = of_int m * 2 powr of_int j" and m: "\<bar>m\<bar> < 2 ^ 53" and j: "- 1074 \<le> j"
  shows "fl x = x"
proof (cases "m = 0")
  case True
  with x show ?thesis by (simp add: fl_zero)
next
  case False
  have pj: "0 < (2::real) powr of_int j" by simp
  from False x pj have nz: "x \<noteq> 0" by simp
  then have ax: "0 < \<bar>x\<bar>" by simp
  from m have "real_of_int \<bar>m\<bar> < 2 ^ 53"
    by (metis of_int_less_iff of_int_numeral of_int_power)
  then have "\<bar>x\<bar> < 2 ^ 53 * 2 powr of_int j"
    using pj by (simp add: x abs_mult)
  also have "\<dots> = 2 powr (53 + of_int j)"
    by (simp add: powr_add)
  finally have "log 2 \<bar>x\<bar> < 53 + of_int j"
    using ax by (simp add: log_less_iff)
  then have "\<lfloor>log 2 \<bar>x\<bar>\<rfloor> < 53 + j"
    by (simp add: floor_less_iff)
  with j have e: "fl_exponent x - 52 \<le> j"
    by (simp add: fl_exponent_def)
  define d where "d = nat (j - (fl_exponent x - 52))"
  define q where "q = (2::real) powr of_int (fl_exponent x - 52)"
  have qpos: "0 < q" by (simp add: q_def)
  from e have dj: "j = (fl_exponent x - 52) + int d" by (simp add: d_def)
  have split: "2 powr of_int j = q * (2::real) ^ d"
  proof -
    have "2 powr of_int j = 2 powr (of_int (fl_exponent x - 52) + real d)"
      by (subst dj) simp
    also have "\<dots> = 2 powr of_int (fl_exponent x - 52) * 2 powr real d"
      by (rule powr_add)
    finally show ?thesis by (simp add: powr_realpow q_def)
  qed
  have xq: "x = of_int (m * 2 ^ d) * q"
    unfolding x split by simp
  then have "x / q = of_int (m * 2 ^ d)"
    using qpos by simp
  then have "py_round (x / q) = m * 2 ^ d"
    by (simp only: py_round_of_int)
  then have "fl x = of_int (m * 2 ^ d) * q"
    using nz unfolding fl_def q_def by simp
  with xq show ?thesis by simp
qed

lemma fl_of_int: "\<bar>m\<bar> < 2 ^ 53 \<Longrightarrow> fl (of_int m) = of_int m"
  using fl_exact [of "of_int m" m 0] by simp

lemma fl_numeral: "numeral w < (9007199254740992::int) \<Longrightarrow> fl (numeral w) = numeral w"
  using fl_of_int [of "numeral w"] by simp

lemma fl_neg_numeral:
  "numeral w < (9007199254740992::int) \<Longrightarrow> fl (- numeral w) = - numeral w"
  by (simp add: fl_minus fl_numeral)

lemma fl_one: "fl 1 = 1"
  using fl_of_int [of 1] by simp

lemma fl_dyadic:
  assumes "\<bar>m\<bar> < 2 ^ 53" and "n \<le> 1074"
  shows "fl (of_int m / 2 ^ n) = of_int m / 2 ^ n"
proof -
  have "2 powr of_int (- int n) = 1 / (2::real) ^ n" by (rule two_powr_neg_nat)
  then have "of_int m / (2::real) ^ n = of_int m * 2 powr of_int (- int n)" by simp
  moreover from assms(2) have "- 1074 \<le> - int n" by simp
  ultimately show ?thesis using assms(1)
    by (intro fl_exact [of _ m "- int n"])
qed

lemma py_round_eqI: "\<bar>x - of_int k\<bar> < 1 / 2 \<Longrightarrow> py_round x = k"
proof -
  assume a: "\<bar>x - of_int k\<bar> < 1 / 2"
  show ?thesis
  proof (cases "of_int k \<le> x")
    case True
    with a have "\<lfloor>x\<rfloor> = k" by (intro floor_unique) auto
    with a True show ?thesis by (simp add: py_round_def)
  next
    case False
    with a have f: "\<lfloor>x\<rfloor> = k - 1" by (intro floor_unique) auto
    with a False show ?thesis by (auto simp: py_round_def Let_def)
  qed
qed

text \<open>The floats of the examples, as Python prints their exact values.\<close>

lemma fl_half: "fl (1 / 2) = 1 / 2"
  using fl_dyadic [of 1 1] by simp

lemma fl_4_5: "fl (4 / 5) = 3602879701896397 / 4503599627370496"
  using fl_eval_lt1 [of "4 / 5" 1] by (simp add: py_round_def)

lemma fl_19_25: "fl (19 / 25) = 3422735716801577 / 4503599627370496"
  using fl_eval_lt1 [of "19 / 25" 1] by (simp add: py_round_def)

lemma fl_3_5: "fl (3 / 5) = 5404319552844595 / 9007199254740992"
  using fl_eval_lt1 [of "3 / 5" 1] by (simp add: py_round_def)

lemma fl_18_5: "fl (18 / 5) = 8106479329266893 / 2251799813685248"
  using fl_eval_ge1 [of 1 "18 / 5"] by (simp add: py_round_def)

lemma fl_9_20: "fl (9 / 20) = 8106479329266893 / 18014398509481984"
  using fl_eval_lt1 [of "9 / 20" 2] by (simp add: py_round_def)

lemma POS_FLUCTUATION_FILTER_value:
  "POS_FLUCTUATION_FILTER = 3602879701896397 / 4503599627370496"
  by (simp add: POS_FLUCTUATION_FILTER_def fl_4_5)

lemma fl_float_19_25:
  "fl (3422735716801577 / 4503599627370496) = 3422735716801577 / 4503599627370496"
  using fl_eval_lt1 [of "3422735716801577 / 4503599627370496" 1] by (simp add: py_round_def)

lemma fl_square_19_25:
  "fl (3422735716801577 / 4503599627370496 * (3422735716801577 / 4503599627370496))
     = 5202558289538397 / 9007199254740992"
  using fl_eval_lt1 [of "3422735716801577 / 4503599627370496 * (3422735716801577 / 4503599627370496)" 1]
  by (simp add: py_round_def)

lemma fl_float_square_19_25:
  "fl (5202558289538397 / 9007199254740992) = 5202558289538397 / 9007199254740992"
  using fl_eval_lt1 [of "5202558289538397 / 9007199254740992" 1] by (simp add: py_round_def)

lemma fl_sqrt_square_19_25:
  "fl (sqrt (5202558289538397 / 9007199254740992)) = 3422735716801577 / 4503599627370496"
proof -
  define s :: real where "s = sqrt (5202558289538397 / 9007199254740992)"
  have lo: "(6845471433603154 - 1 / 2) / 9007199254740992 < s"
    unfolding s_def by (rule real_less_rsqrt) (simp add: power2_eq_square)
  have hi: "s < (6845471433603154 + 1 / 2) / 9007199254740992"
    unfolding s_def by (rule real_less_lsqrt) (simp_all add: power2_eq_square)
  from lo have lo': "6845471433603154 - 1 / 2 < s * 9007199254740992"
    by (simp add: divide_less_eq)
  from hi have hi': "s * 9007199254740992 < 6845471433603154 + 1 / 2"
    by (simp add: less_divide_eq)
  have k: "real_of_int 6845471433603154 = 6845471433603154" by simp
  from lo' hi' have "\<bar>s * 9007199254740992 - of_int 6845471433603154\<bar> < 1 / 2"
    unfolding k by arith
  then have r: "py_round (s * 9007199254740992) = 6845471433603154"
    by (rule py_round_eqI)
  from lo have "1 / 2 \<le> s" by simp
  then have a: "1 \<le> \<bar>s\<bar> * 2 ^ 1" by simp
  from hi have "s < 1" by simp
  with \<open>1 / 2 \<le> s\<close> have b: "\<bar>s\<bar> * 2 ^ 1 < 2" by simp
  from fl_eval_lt1 [OF a b] r have "fl s = 3422735716801577 / 4503599627370496" by simp
  then show ?thesis by (simp only: s_def)
qed


section \<open>Evaluation lemmas\<close>

lemmas float_ops =
  float_add_def float_sub_def float_mul_def float_div_def float_pow2_def float_overflow_def
  math_sqrt_def

lemma fl_neg_one: "fl (- 1) = - 1"
  by (simp only: fl_minus fl_one)

lemmas fl_small = fl_zero fl_one fl_neg_one fl_numeral fl_neg_numeral

lemma fl_quarter: "fl (1 / 4) = 1 / 4"
  using fl_dyadic [of 1 2] by simp

lemma fl_neg_half: "fl (- (1 / 2)) = - (1 / 2)"
  by (simp only: fl_minus fl_half)

lemma sqrt_square_nonneg: "0 \<le> y \<Longrightarrow> sqrt (y * y) = y"
  by (simp add: real_sqrt_mult_self)

lemma sqrt_values: "sqrt 25 = 5" "sqrt 100 = 10" "sqrt (1 / 4) = 1 / 2"
proof -
  have "sqrt (5 * 5) = 5" "sqrt (10 * 10) = 10" "sqrt (1 / 2 * (1 / 2)) = 1 / 2"
    by (rule sqrt_square_nonneg, simp)+
  then show "sqrt 25 = 5" "sqrt 100 = 10" "sqrt (1 / 4) = 1 / 2" by simp_all
qed

lemma py_round1_values:
  "py_round1 0 = 0" "py_round1 1 = 1" "py_round1 5 = 5" "py_round1 10 = 10"
  "py_round1 (1 / 2) = 1 / 2"
  "py_round1 (3422735716801577 / 4503599627370496) = 3602879701896397 / 4503599627370496"
  by (simp_all add: py_round1_def py_round_def fl_small fl_half fl_4_5)

lemma extract_pos_data_at:
  "extract_pos (data_at i x y t) ''posX'' = Inr (Some (fl x))"
  "extract_pos (data_at i x y t) ''posY'' = Inr (Some (fl y))"
  by (simp_all add: extract_pos_def data_at_def)

lemma extract_tms_data_at: "extract_tms (data_at i x y t) = Some t"
  by (simp add: extract_tms_def data_at_def)

lemma extract_zone_names_data_at: "extract_zone_names (data_at i x y t) z = []"
  by (simp add: extract_zone_names_def data_at_def)

lemma extract_data_no_tms:
  "extract_pos (data_no_tms i x y) ''posX'' = Inr (Some (fl x))"
  "extract_pos (data_no_tms i x y) ''posY'' = Inr (Some (fl y))"
  "extract_tms (data_no_tms i x y) = None"
  "extract_zone_names (data_no_tms i x y) z = []"
  by (simp_all add: extract_pos_def extract_tms_def extract_zone_names_def data_no_tms_def)

lemma extract_data_no_pos:
  "extract_pos (data_no_pos i) p = Inr None"
  "extract_tms (data_no_pos i) = None"
  "extract_zone_names (data_no_pos i) z = []"
  by (simp_all add: extract_pos_def extract_tms_def extract_zone_names_def data_no_pos_def)


section \<open>The geometric primitives on known coordinates\<close>

lemma calculate_distance_known:
  "calculate_distance (Some (Some a, Some b)) (Some (Some c, Some d)) =
     (case float_pow2 (float_sub c a) of
        Inl e \<Rightarrow> Inl e
      | Inr sx \<Rightarrow>
          (case float_pow2 (float_sub d b) of
             Inl e \<Rightarrow> Inl e
           | Inr sy \<Rightarrow> Inr (py_round1 (math_sqrt (float_add sx sy)))))"
  by (simp add: calculate_distance_def split: sum.splits)

lemma calculate_distance_Inr:
  assumes "calculate_distance p q = Inr m"
  shows "\<exists>a b c d. p = Some (Some a, Some b) \<and> q = Some (Some c, Some d)"
  using assms
  by (auto simp: calculate_distance_def split: option.splits prod.splits sum.splits)

lemma float_pow2_sub_sym: "float_pow2 (float_sub a b) = float_pow2 (float_sub b a)"
proof -
  have "fl (a - b) = - fl (b - a)"
    using fl_minus [of "b - a"] by simp
  then show ?thesis by (simp add: float_pow2_def float_sub_def)
qed

lemma calculate_distance_sym:
  assumes "calculate_distance p q = Inr m"
  shows "calculate_distance q p = Inr m"
proof -
  from assms obtain a b c d where pq: "p = Some (Some a, Some b)" "q = Some (Some c, Some d)"
    by (auto dest: calculate_distance_Inr)
  have "calculate_distance q p = calculate_distance p q"
    unfolding pq
    by (simp only: calculate_distance_known float_pow2_sub_sym [of c a]
        float_pow2_sub_sym [of d b])
  with assms show ?thesis by simp
qed

lemma calculate_distance_same:
  "calculate_distance (Some (Some a, Some b)) (Some (Some a, Some b)) = Inr 0"
  by (simp add: calculate_distance_known float_ops fl_small py_round1_values)

lemma distance_unknown:
  "calculate_distance (Some (a, b)) (Some (None, None)) = Inl TypeError"
  "calculate_distance (Some (None, None)) c = Inl TypeError"
  by (simp_all add: calculate_distance_def split: option.splits prod.splits)

lemma distance_3_4:
  "calculate_distance (Some (Some 0, Some 0)) (Some (Some 3, Some 4)) = Inr 5"
  by (simp add: calculate_distance_known float_ops fl_small sqrt_values py_round1_values)

lemma distance_0_10:
  "calculate_distance (Some (Some 0, Some 0)) (Some (Some 0, Some 10)) = Inr 10"
  by (simp add: calculate_distance_known float_ops fl_small sqrt_values py_round1_values)

lemma distance_10_0:
  "calculate_distance (Some (Some 10, Some 0)) (Some (Some 0, Some 0)) = Inr 10"
  "calculate_distance (Some (Some 20, Some 0)) (Some (Some 10, Some 0)) = Inr 10"
  by (simp_all add: calculate_distance_known float_ops fl_small sqrt_values py_round1_values)

lemma distance_half:
  "calculate_distance (Some (Some (1 / 2), Some 0)) (Some (Some 0, Some 0)) = Inr (1 / 2)"
  by (simp add: calculate_distance_known float_ops fl_small fl_half fl_neg_half fl_quarter
      sqrt_values py_round1_values)

text \<open>The candidate 0.76 and the prior position \<open>(0, 0)\<close>: the distance is the float of 0.8.\<close>

lemma distance_076:
  "calculate_distance (Some (Some (3422735716801577 / 4503599627370496), Some 0))
       (Some (Some 0, Some 0))
     = Inr (3602879701896397 / 4503599627370496)"
proof -
  have n: "fl (- (3422735716801577 / 4503599627370496)) = - (3422735716801577 / 4503599627370496)"
    by (simp only: fl_minus fl_float_19_25)
  have sq: "fl (- (3422735716801577 / 4503599627370496) * - (3422735716801577 / 4503599627370496))
              = 5202558289538397 / 9007199254740992"
    using fl_square_19_25 by simp
  have ov: "\<not> float_overflow (- (3422735716801577 / 4503599627370496)
                                * - (3422735716801577 / 4503599627370496))"
    by (simp add: float_overflow_def)
  have x: "float_pow2 (float_sub 0 (3422735716801577 / 4503599627370496))
             = Inr (5202558289538397 / 9007199254740992)"
    unfolding float_sub_def float_pow2_def using n sq ov by simp
  have y: "float_pow2 (float_sub 0 0) = Inr 0"
    by (simp add: float_ops fl_small)
  have ad: "float_add (5202558289538397 / 9007199254740992) 0 = 5202558289538397 / 9007199254740992"
    by (simp add: float_add_def fl_float_square_19_25)
  show ?thesis
    unfolding calculate_distance_known x y
    by (simp add: ad math_sqrt_def fl_sqrt_square_19_25 py_round1_values)
qed

lemma heading_north:
  "calculate_heading (Some (Some 0, Some 0)) (Some (Some 0, Some 10)) = Inr 180"
  by (simp add: calculate_heading_def math_atan2_def math_degrees_def py_fmod_def py_round_def)

lemma heading_east:
  "0 < x \<Longrightarrow> calculate_heading (Some (Some 0, Some 0)) (Some (Some x, Some 0)) = Inr 90"
  by (simp add: calculate_heading_def math_atan2_def math_degrees_def py_fmod_def py_round_def)

lemma heading_east_from_10:
  "calculate_heading (Some (Some 10, Some 0)) (Some (Some 20, Some 0)) = Inr 90"
  by (simp add: calculate_heading_def math_atan2_def math_degrees_def py_fmod_def py_round_def)

lemma calculate_heading_known:
  "\<exists>h. calculate_heading (Some (Some a, Some b)) (Some (Some c, Some d)) = Inr h"
  by (simp add: calculate_heading_def Let_def)

lemma calculate_speed_value:
  assumes "calculate_distance c1 c2 = Inr dx"
  shows "calculate_speed c1 t0 c2 t1
     = Inr (if float_sub t1 t0 \<le> 0 then 0
            else py_round1 (float_div (float_mul (float_div dx (float_sub t1 t0)) 3600) 1000))"
  unfolding calculate_speed_def assms
  by (simp only: sum.case Let_def if_distrib [where f = Inr])


section \<open>updateObject: the two branches\<close>

lemma updateObject_reject:
  assumes "extract_pos dat ''posX'' = Inr qx"
    and "extract_pos dat ''posY'' = Inr qy"
    and "calculate_distance (Some (qx, qy)) (pos ob) = Inr moved"
    and "moved < POS_FLUCTUATION_FILTER"
  shows "updateObject ob dat =
           Inr (ob\<lparr> mvz := extract_zone_names dat ''M'',
                    liz := extract_zone_names dat ''L'',
                    bsz := extract_zone_names dat ''B'',
                    vct := [] \<rparr>)"
proof -
  from assms(3) obtain c d where "pos ob = Some (Some c, Some d)"
    by (auto dest: calculate_distance_Inr)
  with assms show ?thesis
    by (simp add: updateObject_def)
qed

lemma updateObject_commit:
  assumes "extract_pos dat ''posX'' = Inr qx"
    and "extract_pos dat ''posY'' = Inr qy"
    and "calculate_distance (Some (qx, qy)) (pos ob) = Inr moved"
    and "POS_FLUCTUATION_FILTER \<le> moved"
  shows "\<exists>h'. updateObject ob dat =
           Inr (ob\<lparr> pos := Some (qx, qy),
                    tms := extract_tms dat,
                    his := \<lparr> h_pos = pos ob, h_tms = tms ob \<rparr>,
                    spd := Some (if truthy_real (extract_tms dat) \<and> truthy_real (tms ob)
                                 then (if float_sub (the (extract_tms dat)) (the (tms ob)) \<le> 0 then 0
                                       else py_round1
                                              (float_div
                                                 (float_mul
                                                    (float_div moved
                                                       (float_sub (the (extract_tms dat)) (the (tms ob))))
                                                    3600)
                                                 1000))
                                 else 0),
                    hdg := h',
                    mvz := extract_zone_names dat ''M'',
                    liz := extract_zone_names dat ''L'',
                    bsz := extract_zone_names dat ''B'',
                    vct := [] \<rparr>)"
proof -
  from assms(3) obtain a b c d where
    q: "qx = Some a" "qy = Some b" and p: "pos ob = Some (Some c, Some d)"
    by (auto dest: calculate_distance_Inr)
  obtain h where h: "calculate_heading (Some (Some c, Some d)) (Some (Some a, Some b)) = Inr h"
    using calculate_heading_known by blast
  have rev: "calculate_distance (Some (Some c, Some d)) (Some (Some a, Some b)) = Inr moved"
    using assms(3) unfolding q p by (rule calculate_distance_sym)
  have "0 < POS_FLUCTUATION_FILTER" by (simp add: POS_FLUCTUATION_FILTER_value)
  with assms(4) have "moved \<noteq> 0" by simp
  with rev have ne: "\<not> (a = c \<and> b = d)"
    by (auto simp: calculate_distance_same)
  have sp: "\<And>t0 t1. calculate_speed (Some (Some c, Some d)) t0 (Some (Some a, Some b)) t1
     = Inr (if float_sub t1 t0 \<le> 0 then 0
            else py_round1 (float_div (float_mul (float_div moved (float_sub t1 t0)) 3600) 1000))"
    using rev by (rule calculate_speed_value)
  show ?thesis
    using assms h ne
    by (intro exI [of _ "Some h"]) (simp add: updateObject_def q p sp Let_def)
qed


section \<open>create_vectors: keys, lengths, completion\<close>



lemma update_present_keys:
  "map_of al k = Some v \<Longrightarrow> map fst (AList.update k v' al) = map fst al"
proof -
  assume "map_of al k = Some v"
  then have "(k, v) \<in> set al" by (rule map_of_SomeD)
  then have "k \<in> set (map fst al)" by force
  then show ?thesis by (simp add: update_keys)
qed

lemma create_vectors_loop_keys:
  "create_vectors_loop reg ids = (reg', err) \<Longrightarrow> map fst reg' = map fst reg"
proof (induction ids arbitrary: reg)
  case Nil
  then show ?case by simp
next
  case (Cons this_id ids)
  show ?case
  proof (cases "map_of reg this_id")
    case None
    with Cons.prems show ?thesis by simp
  next
    case (Some this)
    show ?thesis
    proof (cases "vectors_array this this_id reg")
      case (Inl e)
      with Cons.prems Some show ?thesis by simp
    next
      case (Inr vs)
      with Cons.prems Some have
        "create_vectors_loop (AList.update this_id (this\<lparr> vct := vs \<rparr>) reg) ids = (reg', err)"
        by simp
      from Cons.IH [OF this] Some show ?thesis
        by (simp add: update_present_keys)
    qed
  qed
qed










section \<open>Zone lights, registry keys and the main loop\<close>

lemma penetrated_zones_union:
  "penetrated_zones objects = (\<Union>ob \<in> snd ` set objects. set (liz ob))"
  by (auto simp: penetrated_zones_def)

lemma check_zones_loop_commands:
  "check_zones_loop pz post zp = Inr cmds \<Longrightarrow>
     cmds = map (\<lambda>(zone, pin). (pin, zone \<notin> pz)) zp"
proof (induction zp arbitrary: cmds)
  case Nil
  then show ?case by simp
next
  case (Cons a zp)
  obtain zone pin where a: "a = (zone, pin)" by (cases a)
  with Cons.prems obtain cmds' where
    "check_zones_loop pz post zp = Inr cmds'" and "cmds = (pin, zone \<notin> pz) # cmds'"
    by (auto split: sum.splits)
  with Cons.IH a show ?case by simp
qed

lemma control_light_pin_caught:
  "\<forall>e. post pin state \<noteq> OtherException e \<Longrightarrow> control_light_pin post pin state = Inr ()"
  by (cases "post pin state") (simp_all add: control_light_pin_def)

lemma check_zones_loop_no_escape:
  assumes "\<forall>pin state e. post pin state \<noteq> OtherException e"
  shows "check_zones_loop pz post zp = Inr (map (\<lambda>(zone, pin). (pin, zone \<notin> pz)) zp)"
proof (induction zp)
  case Nil
  then show ?case by simp
next
  case (Cons a zp)
  obtain zone pin where a: "a = (zone, pin)" by (cases a)
  have "control_light_pin post pin (zone \<notin> pz) = Inr ()"
    using assms by (simp add: control_light_pin_caught)
  with Cons a show ?case by simp
qed

lemma check_zones_no_escape:
  assumes "\<forall>pin state e. post pin state \<noteq> OtherException e"
  shows "check_zones objects post
           = Inr (map (\<lambda>(zone, pin). (pin, zone \<notin> penetrated_zones objects)) ZONE_PIN_MAP)"
  unfolding check_zones_def using assms by (rule check_zones_loop_no_escape)

lemma update_loop_keys:
  "update_loop reg results = (reg', err) \<Longrightarrow> map fst reg' = map fst reg"
proof (induction results arbitrary: reg)
  case Nil
  then show ?case by simp
next
  case (Cons result rest)
  show ?case
  proof (cases "d_id result")
    case None
    with Cons.prems show ?thesis by simp
  next
    case (Some result_id)
    note rid = Some
    show ?thesis
    proof (cases "map_of reg result_id")
      case None
      with Cons rid show ?thesis by simp
    next
      case (Some ob)
      show ?thesis
      proof (cases "updateObject ob result")
        case (Inl e)
        with Cons.prems rid Some show ?thesis by simp
      next
        case (Inr ob')
        with Cons.prems rid Some have
          "update_loop (AList.update result_id ob' reg) rest = (reg', err)" by simp
        from Cons.IH [OF this] Some show ?thesis by (simp add: update_present_keys)
      qed
    qed
  qed
qed

lemma update_objects_keys: "map fst (update_objects reg response) = map fst reg"
proof (cases response)
  case None
  then show ?thesis by (simp add: update_objects_def update_objects_try_def)
next
  case (Some results)
  obtain reg' err where "update_loop reg results = (reg', err)"
    by (cases "update_loop reg results")
  with Some update_loop_keys [OF this] show ?thesis
    by (simp add: update_objects_def update_objects_try_def)
qed

lemma create_vectors_keys: "map fst (create_vectors reg) = map fst reg"
proof -
  obtain reg' err where "create_vectors_loop reg (map fst reg) = (reg', err)"
    by (cases "create_vectors_loop reg (map fst reg)")
  with create_vectors_loop_keys [OF this] show ?thesis
    by (simp add: create_vectors_def create_vectors_try_def)
qed

lemma initialize_loop_keys:
  "initialize_loop reg results = (reg', None) \<Longrightarrow>
     fst ` set reg' = fst ` set reg \<union> {k. \<exists>r \<in> set results. d_id r = Some k}"
proof (induction results arbitrary: reg)
  case Nil
  then show ?case by simp
next
  case (Cons result rest)
  from Cons.prems obtain result_id where rid: "d_id result = Some result_id"
    by (cases "d_id result") auto
  with Cons.prems obtain ob where ob: "createObject result_id result = Inr ob"
    by (cases "createObject result_id result") auto
  with Cons.prems rid have "initialize_loop (AList.update result_id ob reg) rest = (reg', None)"
    by simp
  from Cons.IH [OF this] rid show ?case
    by (auto simp: dom_update)
qed

lemma createObject_data_at:
  "createObject i (data_at j x y t) = Inr (obj_at (fl x) (fl y) (Some t) None None)"
proof -
  have al: "d_alias (data_at j x y t) = Some ''tag''" by (simp add: data_at_def)
  show ?thesis
    by (simp add: createObject_def extract_pos_data_at extract_tms_data_at
        extract_zone_names_data_at obj_at_def al)
qed

lemma set_all_lights_loop_no_escape:
  assumes "\<forall>pin state e. post pin state \<noteq> OtherException e"
  shows "set_all_lights_loop post pins state = Inr ()"
proof (induction pins)
  case Nil
  then show ?case by simp
next
  case (Cons pin pins)
  have "control_light_pin post pin state = Inr ()"
    using assms by (simp add: control_light_pin_caught)
  with Cons show ?case by simp
qed

lemma set_all_lights_no_escape:
  assumes "\<forall>pin state e. post pin state \<noteq> OtherException e"
  shows "set_all_lights post state = Inr ()"
  unfolding set_all_lights_def using assms by (rule set_all_lights_loop_no_escape)

lemma working_loop_runs:
  assumes "\<forall>env \<in> set envs. \<forall>pin state e. gpio_post env pin state \<noteq> OtherException e"
  shows "fst (working_loop reg envs n) = LoopRunning
         \<and> snd (snd (working_loop reg envs n)) = n + length envs"
  using assms
proof (induction envs arbitrary: reg n)
  case Nil
  then show ?case by simp
next
  case (Cons env envs)
  from Cons.prems have "\<forall>pin state e. gpio_post env pin state \<noteq> OtherException e" by simp
  then have cz: "check_zones (create_vectors (update_objects reg (fetched env))) (gpio_post env)
           = Inr (map (\<lambda>(zone, pin).
                    (pin, zone \<notin> penetrated_zones (create_vectors (update_objects reg (fetched env)))))
                  ZONE_PIN_MAP)"
    by (rule check_zones_no_escape)
  from Cons.prems have "\<forall>env \<in> set envs. \<forall>pin state e. gpio_post env pin state \<noteq> OtherException e"
    by simp
  from Cons.IH [OF this, of "create_vectors (update_objects reg (fetched env))" "Suc n"] cz
  show ?case by (simp add: Let_def)
qed

lemma createObject_data_no_pos: "createObject i (data_no_pos j) = Inr obj_no_pos"
proof -
  have al: "d_alias (data_no_pos j) = Some ''tag''" by (simp add: data_no_pos_def)
  show ?thesis by (simp add: createObject_def extract_data_no_pos obj_no_pos_def al)
qed

lemma updateObject_no_pos_raises: "updateObject obj_no_pos (data_at i x y t) = Inl TypeError"
  by (simp add: updateObject_def extract_pos_data_at obj_no_pos_def distance_unknown)


section \<open>The floats of the speed examples\<close>

lemma distance_1_0:
  "calculate_distance (Some (Some 1, Some 0)) (Some (Some 0, Some 0)) = Inr 1"
  by (simp add: calculate_distance_known float_ops fl_small py_round1_values)

lemma speed_chain_36:
  "py_round1 (8106479329266893 / 2251799813685248) = 8106479329266893 / 2251799813685248"
  by (simp add: py_round1_def py_round_def fl_18_5)

lemma speed_chain_05:
  "fl (1 / 8) = 1 / 8"
  "fl 450 = 450"
  "py_round1 (8106479329266893 / 18014398509481984) = 1 / 2"
proof -
  show "fl (1 / 8) = 1 / 8" using fl_dyadic [of 1 3] by simp
  show "fl 450 = 450" by (simp add: fl_small)
  show "py_round1 (8106479329266893 / 18014398509481984) = 1 / 2"
    by (simp add: py_round1_def py_round_def fl_half)
qed

lemma speed_chain_076:
  "fl (3602879701896397 / 22517998136852480) = 5764607523034235 / 36028797018963968"
  "fl (1297036692682702875 / 2251799813685248) = 576"
  "fl (72 / 125) = 5188146770730811 / 9007199254740992"
  "py_round1 (5188146770730811 / 9007199254740992) = 5404319552844595 / 9007199254740992"
proof -
  show "fl (3602879701896397 / 22517998136852480) = 5764607523034235 / 36028797018963968"
    using fl_eval_lt1 [of "3602879701896397 / 22517998136852480" 3] by (simp add: py_round_def)
  show "fl (1297036692682702875 / 2251799813685248) = 576"
    using fl_eval_ge1 [of 9 "1297036692682702875 / 2251799813685248"] by (simp add: py_round_def)
  show "fl (72 / 125) = 5188146770730811 / 9007199254740992"
    using fl_eval_lt1 [of "72 / 125" 1] by (simp add: py_round_def)
  show "py_round1 (5188146770730811 / 9007199254740992) = 5404319552844595 / 9007199254740992"
    by (simp add: py_round1_def py_round_def fl_3_5)
qed


section \<open>Boundary inputs of calculate_distance\<close>

text \<open>
  A tie of the rounding: the candidate \<open>(0.45, 0.6)\<close> and the prior position \<open>(0, 0)\<close>.
  The floats of 0.45 and 0.6 have squares whose float sum is exactly 0.5625, the square
  root is exactly 0.75, and \<open>round(0.75, 1)\<close> is the float of 0.8.
\<close>

lemma fl_3_4: "fl (3 / 4) = 3 / 4"
  using fl_dyadic [of 3 2] by simp

lemma fl_9_16: "fl (9 / 16) = 9 / 16"
  using fl_dyadic [of 9 4] by simp

lemma sqrt_9_16: "sqrt (9 / 16) = 3 / 4"
proof -
  have "sqrt (3 / 4 * (3 / 4)) = 3 / 4" by (rule sqrt_square_nonneg) simp
  then show ?thesis by simp
qed

lemma float_045:
  "fl (- (8106479329266893 / 18014398509481984)) = - (8106479329266893 / 18014398509481984)"
  "fl (- (8106479329266893 / 18014398509481984) * - (8106479329266893 / 18014398509481984))
     = 1823957849085051 / 9007199254740992"
proof -
  have "fl (8106479329266893 / 18014398509481984) = 8106479329266893 / 18014398509481984"
    using fl_eval_lt1 [of "8106479329266893 / 18014398509481984" 2] by (simp add: py_round_def)
  then show "fl (- (8106479329266893 / 18014398509481984))
               = - (8106479329266893 / 18014398509481984)"
    by (simp only: fl_minus)
  show "fl (- (8106479329266893 / 18014398509481984) * - (8106479329266893 / 18014398509481984))
          = 1823957849085051 / 9007199254740992"
    using fl_eval_lt1 [of "- (8106479329266893 / 18014398509481984)
                             * - (8106479329266893 / 18014398509481984)" 3]
    by (simp add: py_round_def)
qed

lemma float_06:
  "fl (- (5404319552844595 / 9007199254740992)) = - (5404319552844595 / 9007199254740992)"
  "fl (- (5404319552844595 / 9007199254740992) * - (5404319552844595 / 9007199254740992))
     = 3242591731706757 / 9007199254740992"
proof -
  have "fl (5404319552844595 / 9007199254740992) = 5404319552844595 / 9007199254740992"
    using fl_eval_lt1 [of "5404319552844595 / 9007199254740992" 1] by (simp add: py_round_def)
  then show "fl (- (5404319552844595 / 9007199254740992))
               = - (5404319552844595 / 9007199254740992)"
    by (simp only: fl_minus)
  show "fl (- (5404319552844595 / 9007199254740992) * - (5404319552844595 / 9007199254740992))
          = 3242591731706757 / 9007199254740992"
    using fl_eval_lt1 [of "- (5404319552844595 / 9007199254740992)
                             * - (5404319552844595 / 9007199254740992)" 2]
    by (simp add: py_round_def)
qed

lemma distance_045_06:
  "calculate_distance (Some (Some (fl (9 / 20)), Some (fl (3 / 5)))) (Some (Some 0, Some 0))
     = Inr (fl (4 / 5))"
proof -
  have x: "float_pow2 (float_sub 0 (8106479329266893 / 18014398509481984))
             = Inr (1823957849085051 / 9007199254740992)"
    unfolding float_sub_def float_pow2_def
    using float_045 by (simp add: float_overflow_def)
  have y: "float_pow2 (float_sub 0 (5404319552844595 / 9007199254740992))
             = Inr (3242591731706757 / 9007199254740992)"
    unfolding float_sub_def float_pow2_def
    using float_06 by (simp add: float_overflow_def)
  have r: "py_round1 (3 / 4) = fl (4 / 5)"
    by (simp add: py_round1_def py_round_def)
  show ?thesis
    unfolding fl_9_20 fl_3_5 calculate_distance_known x y
    by (simp add: float_add_def math_sqrt_def fl_9_16 sqrt_9_16 fl_3_4 r)
qed

text \<open>A square beyond the range of the floats: \<open>**\<close> raises \<open>OverflowError\<close>.\<close>

lemma distance_overflow:
  "calculate_distance (Some (Some (2 ^ 600), Some 0)) (Some (Some 0, Some 0))
     = Inl OverflowError"
proof -
  have "(2::real) ^ 600 = of_int 1 * 2 powr of_int (int 600)"
    by (simp only: two_powr_nat)
  then have "fl (2 ^ 600) = 2 ^ 600"
    by (rule fl_exact) simp_all
  then have "float_sub 0 (2 ^ 600) = - (2 ^ 600)"
    using fl_minus [of "2 ^ 600"] by (simp add: float_sub_def)
  then have "float_pow2 (float_sub 0 (2 ^ 600)) = Inl OverflowError"
    by (simp add: float_pow2_def float_overflow_def)
  then show ?thesis
    by (simp only: calculate_distance_known sum.case)
qed


section \<open>The claims\<close>

text \<open>
  C2. The claim: no branch of the update raises, and the update of an asset whose prior or
  candidate position is unknown completes. The code: \<open>createObject\<close> gives a tag without
  position streams the position \<open>(None, None)\<close>; the next \<open>updateObject\<close> of that tag
  raises \<open>TypeError\<close> in \<open>calculate_distance\<close>, before the test \<open>obj.get('pos') == None\<close>
  is read; so does the update of a tag with a known position from a record without
  position streams. \<open>update_objects\<close> catches the exception outside its loop, so the
  records after the failing one are not processed: the tag 2 below keeps its position
  although its record reports a move of 10.
\<close>

theorem updateObject_raises_on_unknown_position:
  "createObject 1 (data_no_pos 1) = Inr obj_no_pos
   \<and> updateObject obj_no_pos (data_at 1 1 2 10) = Inl TypeError
   \<and> updateObject (obj_at 0 0 (Some 5) (Some 0) None) (data_no_pos 1) = Inl TypeError
   \<and> update_objects_try [(1, obj_no_pos), (2, obj_at 0 0 (Some 5) (Some 0) None)]
         (Some [data_at 1 1 2 10, data_at 2 10 0 10])
       = ([(1, obj_no_pos), (2, obj_at 0 0 (Some 5) (Some 0) None)], Some TypeError)"
proof -
  have a: "createObject 1 (data_no_pos 1) = Inr obj_no_pos"
    by (rule createObject_data_no_pos)
  have b: "updateObject obj_no_pos (data_at 1 1 2 10) = Inl TypeError"
    by (rule updateObject_no_pos_raises)
  have c: "updateObject (obj_at 0 0 (Some 5) (Some 0) None) (data_no_pos 1) = Inl TypeError"
    by (simp add: updateObject_def extract_data_no_pos distance_unknown)
  have i: "d_id (data_at 1 1 2 10) = Some 1" by (simp add: data_at_def)
  have d: "update_objects_try [(1, obj_no_pos), (2, obj_at 0 0 (Some 5) (Some 0) None)]
         (Some [data_at 1 1 2 10, data_at 2 10 0 10])
       = ([(1, obj_no_pos), (2, obj_at 0 0 (Some 5) (Some 0) None)], Some TypeError)"
    by (simp add: update_objects_try_def b i)
  from a b c d show ?thesis by simp
qed

text \<open>
  C5. The claim: a known heading of 0 degrees yields the relative bearing in \<open>[0, 360)\<close>,
  not the sentinel. The code tests \<open>if my_hdg\<close>, which is false for the heading 0: the
  subject at \<open>(0, 0)\<close> with heading 0, the other at \<open>(0, 10)\<close>, neither in a bad-signal
  zone, get the direction \<open>-1\<close>.
\<close>

theorem create_vector_heading_zero_is_sentinel:
  "create_vector (obj_at 0 0 (Some 5) (Some 0) (Some 0)) (obj_at 0 10 (Some 5) (Some 0) None)
     = Inr \<lparr> v_d = - 1, v_r = 10, v_f = False \<rparr>"
  by (simp add: create_vector_def obj_at_def truthy_int_def distance_0_10)

text \<open>
  C6. The claim: \<open>heading((0,0),(0,10)) == 0\<close>, \<open>heading((0,0),(10,0)) == 90\<close> and
  \<open>distance((0,0),(3,4)) == 5.0\<close>. The code: the heading from \<open>(0, 0)\<close> to \<open>(0, 10)\<close> is
  180, since \<open>calculate_heading\<close> negates \<open>dy\<close>; the other two values are as claimed.
\<close>

theorem calculate_heading_towards_positive_y_is_180:
  "calculate_heading (Some (Some 0, Some 0)) (Some (Some 0, Some 10)) = Inr 180
   \<and> calculate_heading (Some (Some 0, Some 0)) (Some (Some 10, Some 0)) = Inr 90
   \<and> calculate_distance (Some (Some 0, Some 0)) (Some (Some 3, Some 4)) = Inr 5"
  by (simp add: heading_north heading_east distance_3_4)

text \<open>
  C10. When the fluctuation filter rejects the report (the prior and the candidate position
  are known, so that \<open>calculate_distance\<close> returns, and the distance it returns is below
  the threshold), \<open>updateObject\<close> returns the object with the three zone lists refreshed
  and the vectors emptied, and nothing else changed: speed, heading, position, time stamp
  and history are the prior ones.
\<close>

theorem rejected_update_changes_zones_and_vectors_only:
  assumes "extract_pos dat ''posX'' = Inr qx"
    and "extract_pos dat ''posY'' = Inr qy"
    and "calculate_distance (Some (qx, qy)) (pos ob) = Inr moved"
    and "moved < POS_FLUCTUATION_FILTER"
  shows "\<exists>ob'. updateObject ob dat = Inr ob'
           \<and> spd ob' = spd ob \<and> hdg ob' = hdg ob
           \<and> pos ob' = pos ob \<and> tms ob' = tms ob \<and> his ob' = his ob
           \<and> ob' = ob\<lparr> mvz := extract_zone_names dat ''M'',
                         liz := extract_zone_names dat ''L'',
                         bsz := extract_zone_names dat ''B'',
                         vct := [] \<rparr>"
  using updateObject_reject [OF assms] by simp

theorem rejected_update_changes_zones_and_vectors_only_witness:
  "extract_pos (data_at 1 (1 / 2) 0 10) ''posX'' = Inr (Some (1 / 2))
   \<and> extract_pos (data_at 1 (1 / 2) 0 10) ''posY'' = Inr (Some 0)
   \<and> calculate_distance (Some (Some (1 / 2), Some 0)) (pos (obj_at 0 0 (Some 5) (Some 3) (Some 90)))
        = Inr (1 / 2)
   \<and> 1 / 2 < POS_FLUCTUATION_FILTER
   \<and> (\<exists>ob'. updateObject (obj_at 0 0 (Some 5) (Some 3) (Some 90)) (data_at 1 (1 / 2) 0 10) = Inr ob'
          \<and> spd ob' = Some 3 \<and> hdg ob' = Some 90 \<and> pos ob' = Some (Some 0, Some 0)
          \<and> tms ob' = Some 5)"
proof -
  have h1: "extract_pos (data_at 1 (1 / 2) 0 10) ''posX'' = Inr (Some (1 / 2))"
    and h2: "extract_pos (data_at 1 (1 / 2) 0 10) ''posY'' = Inr (Some 0)"
    by (simp_all add: extract_pos_data_at fl_half fl_small)
  have h3: "calculate_distance (Some (Some (1 / 2), Some 0)) (pos (obj_at 0 0 (Some 5) (Some 3) (Some 90)))
        = Inr (1 / 2)"
    by (simp add: obj_at_def distance_half)
  have h4: "1 / 2 < POS_FLUCTUATION_FILTER"
    by (simp add: POS_FLUCTUATION_FILTER_value)
  from rejected_update_changes_zones_and_vectors_only [OF h1 h2 h3 h4] h1 h2 h3 h4 show ?thesis
    by (auto simp: obj_at_def)
qed

text \<open>
  C1. The claim: the update commits the new position exactly when the prior position is
  unknown or the Euclidean distance to it is at least the threshold 0.8. The code compares
  the result of \<open>calculate_distance\<close>, which is rounded to one decimal: the tag created
  at \<open>(0, 0)\<close> reports \<open>(0.76, 0)\<close>; the distance 0.76 is below the threshold, and the
  update commits, since 0.76 rounds to 0.8. The comments of the code (\<open>config.py\<close>: ignore
  position changes equal or less than; \<open>updateObject\<close>: update only if the tag has moved
  more than the fluctuation) say that this report is to be ignored.
\<close>

theorem update_commits_below_threshold_distance:
  "createObject 1 (data_at 1 0 0 5) = Inr (obj_at 0 0 (Some 5) None None)
   \<and> sqrt ((fl (19 / 25) - 0)\<^sup>2 + (0 - 0)\<^sup>2) < POS_FLUCTUATION_FILTER
   \<and> updateObject (obj_at 0 0 (Some 5) None None) (data_at 1 (19 / 25) 0 10)
     = Inr \<lparr> aka = ''tag'', soc = None, pos = Some (Some (fl (19 / 25)), Some 0), tms = Some 10,
             his = \<lparr> h_pos = Some (Some 0, Some 0), h_tms = Some 5 \<rparr>,
             spd = Some (fl (3 / 5)), hdg = Some 90,
             mvz = [], liz = [], bsz = [], vct = [] \<rparr>"
proof -
  have cr: "createObject 1 (data_at 1 0 0 5) = Inr (obj_at 0 0 (Some 5) None None)"
    by (simp add: createObject_data_at fl_small)
  have "sqrt ((fl (19 / 25) - 0)\<^sup>2 + (0 - 0)\<^sup>2) = \<bar>fl (19 / 25)\<bar>"
    by simp
  then have eu: "sqrt ((fl (19 / 25) - 0)\<^sup>2 + (0 - 0)\<^sup>2) < POS_FLUCTUATION_FILTER"
    by (simp add: fl_19_25 POS_FLUCTUATION_FILTER_value)
  have d: "calculate_distance (Some (Some (3422735716801577 / 4503599627370496), Some 0))
             (Some (Some 0, Some 0)) = Inr (3602879701896397 / 4503599627370496)"
    by (rule distance_076)
  have sp: "calculate_speed (Some (Some 0, Some 0)) 5
              (Some (Some (3422735716801577 / 4503599627370496), Some 0)) 10
            = Inr (5404319552844595 / 9007199254740992)"
    unfolding calculate_speed_value [OF calculate_distance_sym [OF d]]
    by (simp add: float_ops fl_small speed_chain_076)
  have h: "calculate_heading (Some (Some 0, Some 0))
             (Some (Some (3422735716801577 / 4503599627370496), Some 0)) = Inr 90"
    by (rule heading_east) simp
  have up: "updateObject (obj_at 0 0 (Some 5) None None) (data_at 1 (19 / 25) 0 10)
     = Inr \<lparr> aka = ''tag'', soc = None, pos = Some (Some (fl (19 / 25)), Some 0), tms = Some 10,
             his = \<lparr> h_pos = Some (Some 0, Some 0), h_tms = Some 5 \<rparr>,
             spd = Some (fl (3 / 5)), hdg = Some 90,
             mvz = [], liz = [], bsz = [], vct = [] \<rparr>"
    by (simp add: updateObject_def extract_pos_data_at extract_tms_data_at
        extract_zone_names_data_at obj_at_def fl_19_25 fl_3_5 fl_small d sp h
        POS_FLUCTUATION_FILTER_value truthy_real_def Let_def)
  from cr eu up show ?thesis by simp
qed

text \<open>
  C4. The claim: when either time stamp is unknown, a committed update leaves the speed at
  its prior value. The code sets it to 0. The tag is created at \<open>(0, 0)\<close> at time 10 and
  moves to \<open>(10, 0)\<close> at time 20, which gives it the speed 3.6; its next record reports
  \<open>(20, 0)\<close> with no time string: the update commits and the speed is 0.
\<close>

theorem unknown_timestamp_resets_speed:
  "createObject 1 (data_at 1 0 0 10) = Inr (obj_at 0 0 (Some 10) None None)
   \<and> updateObject (obj_at 0 0 (Some 10) None None) (data_at 1 10 0 20) = Inr obj_moving
   \<and> spd obj_moving = Some (fl (18 / 5))
   \<and> extract_tms (data_no_tms 1 20 0) = None
   \<and> updateObject obj_moving (data_no_tms 1 20 0)
     = Inr \<lparr> aka = ''tag'', soc = None, pos = Some (Some 20, Some 0), tms = None,
             his = \<lparr> h_pos = Some (Some 10, Some 0), h_tms = Some 20 \<rparr>,
             spd = Some 0, hdg = Some 90,
             mvz = [], liz = [], bsz = [], vct = [] \<rparr>"
proof -
  have cr: "createObject 1 (data_at 1 0 0 10) = Inr (obj_at 0 0 (Some 10) None None)"
    by (simp add: createObject_data_at fl_small)
  have sp: "calculate_speed (Some (Some 0, Some 0)) 10 (Some (Some 10, Some 0)) 20
            = Inr (8106479329266893 / 2251799813685248)"
    unfolding calculate_speed_value [OF calculate_distance_sym [OF distance_10_0(1)]]
    by (simp add: float_ops fl_small fl_18_5 speed_chain_36)
  have h: "calculate_heading (Some (Some 0, Some 0)) (Some (Some 10, Some 0)) = Inr 90"
    by (rule heading_east) simp
  have u1: "updateObject (obj_at 0 0 (Some 10) None None) (data_at 1 10 0 20) = Inr obj_moving"
    by (simp add: updateObject_def extract_pos_data_at extract_tms_data_at
        extract_zone_names_data_at obj_at_def obj_moving_def fl_18_5 fl_small distance_10_0 sp h
        POS_FLUCTUATION_FILTER_value truthy_real_def Let_def)
  have s1: "spd obj_moving = Some (fl (18 / 5))" by (simp add: obj_moving_def)
  have u2: "updateObject obj_moving (data_no_tms 1 20 0)
     = Inr \<lparr> aka = ''tag'', soc = None, pos = Some (Some 20, Some 0), tms = None,
             his = \<lparr> h_pos = Some (Some 10, Some 0), h_tms = Some 20 \<rparr>,
             spd = Some 0, hdg = Some 90,
             mvz = [], liz = [], bsz = [], vct = [] \<rparr>"
    by (simp add: updateObject_def extract_data_no_tms obj_moving_def fl_small distance_10_0
        heading_east_from_10 POS_FLUCTUATION_FILTER_value truthy_real_def Let_def)
  from cr u1 s1 u2 show ?thesis by (simp add: extract_data_no_tms)
qed

text \<open>
  C4, amended. On a committed update (\<open>calculate_distance\<close> returns for the candidate and
  the prior position, and the distance \<open>moved\<close> it returns reaches the threshold), the
  update returns, and: when both time stamps are known and not zero, the speed is 0 if the
  elapsed time is not positive, and otherwise the distance between the prior and the new
  position (which is \<open>moved\<close>) divided by the elapsed time, times 3600, divided by 1000,
  rounded to one decimal, each operation on floats; when either time stamp is unknown,
  the speed is set to 0.
\<close>

theorem committed_update_speed:
  assumes "extract_pos dat ''posX'' = Inr qx"
    and "extract_pos dat ''posY'' = Inr qy"
    and "calculate_distance (Some (qx, qy)) (pos ob) = Inr moved"
    and "POS_FLUCTUATION_FILTER \<le> moved"
  shows "\<exists>ob'. updateObject ob dat = Inr ob'
           \<and> (\<forall>t0 t1. tms ob = Some t0 \<and> extract_tms dat = Some t1 \<and> t0 \<noteq> 0 \<and> t1 \<noteq> 0 \<longrightarrow>
                 spd ob' = Some (if float_sub t1 t0 \<le> 0 then 0
                                 else py_round1
                                        (float_div
                                           (float_mul (float_div moved (float_sub t1 t0)) 3600)
                                           1000)))
           \<and> (tms ob = None \<or> extract_tms dat = None \<longrightarrow> spd ob' = Some 0)"
proof -
  from updateObject_commit [OF assms] obtain h' where
    "updateObject ob dat =
       Inr (ob\<lparr> pos := Some (qx, qy),
                tms := extract_tms dat,
                his := \<lparr> h_pos = pos ob, h_tms = tms ob \<rparr>,
                spd := Some (if truthy_real (extract_tms dat) \<and> truthy_real (tms ob)
                             then (if float_sub (the (extract_tms dat)) (the (tms ob)) \<le> 0 then 0
                                   else py_round1
                                          (float_div
                                             (float_mul
                                                (float_div moved
                                                   (float_sub (the (extract_tms dat)) (the (tms ob))))
                                                3600)
                                             1000))
                             else 0),
                hdg := h',
                mvz := extract_zone_names dat ''M'',
                liz := extract_zone_names dat ''L'',
                bsz := extract_zone_names dat ''B'',
                vct := [] \<rparr>)"
    by blast
  then show ?thesis
    by (auto simp: truthy_real_def)
qed

theorem committed_update_speed_witness:
  "extract_pos (data_at 1 10 0 20) ''posX'' = Inr (Some 10)
   \<and> extract_pos (data_at 1 10 0 20) ''posY'' = Inr (Some 0)
   \<and> calculate_distance (Some (Some 10, Some 0)) (pos (obj_at 0 0 (Some 10) None None)) = Inr 10
   \<and> POS_FLUCTUATION_FILTER \<le> 10
   \<and> (\<exists>ob'. updateObject (obj_at 0 0 (Some 10) None None) (data_at 1 10 0 20) = Inr ob'
          \<and> spd ob' = Some (fl (18 / 5)))
   \<and> (\<exists>ob'. updateObject (obj_at 0 0 (Some 10) None None) (data_at 1 1 0 18) = Inr ob'
          \<and> spd ob' = Some (1 / 2))
   \<and> (\<exists>ob'. updateObject obj_moving (data_no_tms 1 20 0) = Inr ob' \<and> spd ob' = Some 0)"
proof -
  have a1: "extract_pos (data_at 1 10 0 20) ''posX'' = Inr (Some 10)"
    and a2: "extract_pos (data_at 1 10 0 20) ''posY'' = Inr (Some 0)"
    and b1: "extract_pos (data_at 1 1 0 18) ''posX'' = Inr (Some 1)"
    and b2: "extract_pos (data_at 1 1 0 18) ''posY'' = Inr (Some 0)"
    and c1: "extract_pos (data_no_tms 1 20 0) ''posX'' = Inr (Some 20)"
    and c2: "extract_pos (data_no_tms 1 20 0) ''posY'' = Inr (Some 0)"
    by (simp_all add: extract_pos_data_at extract_data_no_tms fl_small)
  have da: "calculate_distance (Some (Some 10, Some 0)) (pos (obj_at 0 0 (Some 10) None None)) = Inr 10"
    and db: "calculate_distance (Some (Some 1, Some 0)) (pos (obj_at 0 0 (Some 10) None None)) = Inr 1"
    and dc: "calculate_distance (Some (Some 20, Some 0)) (pos obj_moving) = Inr 10"
    by (simp_all add: obj_at_def obj_moving_def distance_10_0 distance_1_0)
  have f: "POS_FLUCTUATION_FILTER \<le> 10" "POS_FLUCTUATION_FILTER \<le> 1"
    by (simp_all add: POS_FLUCTUATION_FILTER_value)
  have ta: "tms (obj_at 0 0 (Some 10) None None) = Some 10
            \<and> extract_tms (data_at 1 10 0 20) = Some 20 \<and> (10::real) \<noteq> 0 \<and> (20::real) \<noteq> 0"
    and tb: "tms (obj_at 0 0 (Some 10) None None) = Some 10
            \<and> extract_tms (data_at 1 1 0 18) = Some 18 \<and> (10::real) \<noteq> 0 \<and> (18::real) \<noteq> 0"
    and tc: "tms obj_moving = None \<or> extract_tms (data_no_tms 1 20 0) = None"
    by (simp_all add: obj_at_def extract_tms_data_at extract_data_no_tms)
  have va: "(if float_sub 20 10 \<le> 0 then 0
             else py_round1 (float_div (float_mul (float_div 10 (float_sub 20 10)) 3600) 1000))
            = fl (18 / 5)"
    by (simp add: float_ops fl_small fl_18_5 speed_chain_36)
  have vb: "(if float_sub 18 10 \<le> 0 then 0
             else py_round1 (float_div (float_mul (float_div 1 (float_sub 18 10)) 3600) 1000))
            = 1 / 2"
    by (simp add: float_ops fl_small fl_9_20 speed_chain_05)
  have ca: "\<exists>ob'. updateObject (obj_at 0 0 (Some 10) None None) (data_at 1 10 0 20) = Inr ob'
          \<and> spd ob' = Some (fl (18 / 5))"
  proof -
    from committed_update_speed [OF a1 a2 da f(1)] obtain ob' where
      u: "updateObject (obj_at 0 0 (Some 10) None None) (data_at 1 10 0 20) = Inr ob'"
      and g: "\<forall>t0 t1. tms (obj_at 0 0 (Some 10) None None) = Some t0
                \<and> extract_tms (data_at 1 10 0 20) = Some t1 \<and> t0 \<noteq> 0 \<and> t1 \<noteq> 0 \<longrightarrow>
              spd ob' = Some (if float_sub t1 t0 \<le> 0 then 0
                              else py_round1
                                     (float_div (float_mul (float_div 10 (float_sub t1 t0)) 3600) 1000))"
      by blast
    from g ta have "spd ob' = Some (if float_sub 20 10 \<le> 0 then 0
                              else py_round1
                                     (float_div (float_mul (float_div 10 (float_sub 20 10)) 3600) 1000))"
      by blast
    then have "spd ob' = Some (fl (18 / 5))" by (simp only: va)
    with u show ?thesis by blast
  qed
  have cb: "\<exists>ob'. updateObject (obj_at 0 0 (Some 10) None None) (data_at 1 1 0 18) = Inr ob'
          \<and> spd ob' = Some (1 / 2)"
  proof -
    from committed_update_speed [OF b1 b2 db f(2)] obtain ob' where
      u: "updateObject (obj_at 0 0 (Some 10) None None) (data_at 1 1 0 18) = Inr ob'"
      and g: "\<forall>t0 t1. tms (obj_at 0 0 (Some 10) None None) = Some t0
                \<and> extract_tms (data_at 1 1 0 18) = Some t1 \<and> t0 \<noteq> 0 \<and> t1 \<noteq> 0 \<longrightarrow>
              spd ob' = Some (if float_sub t1 t0 \<le> 0 then 0
                              else py_round1
                                     (float_div (float_mul (float_div 1 (float_sub t1 t0)) 3600) 1000))"
      by blast
    from g tb have "spd ob' = Some (if float_sub 18 10 \<le> 0 then 0
                              else py_round1
                                     (float_div (float_mul (float_div 1 (float_sub 18 10)) 3600) 1000))"
      by blast
    then have "spd ob' = Some (1 / 2)" by (simp only: vb)
    with u show ?thesis by blast
  qed
  have cc: "\<exists>ob'. updateObject obj_moving (data_no_tms 1 20 0) = Inr ob' \<and> spd ob' = Some 0"
    using committed_update_speed [OF c1 c2 dc f(1)] tc by blast
  from a1 a2 da f ca cb cc show ?thesis by simp
qed



text \<open>
  C8. When \<open>check_zones\<close> returns (no exception leaves a call of
  \<open>_control_light_pin\<close>), it has commanded, for every zone of \<open>ZONE_PIN_MAP\<close>, the pin of
  the zone ON (\<open>True\<close>) exactly when the zone is in no object's \<open>liz\<close>, and OFF (\<open>False\<close>)
  exactly when it is in some object's \<open>liz\<close>.
\<close>

theorem check_zones_on_iff_zone_not_penetrated:
  assumes "check_zones objects post = Inr cmds"
    and "(zone, pin) \<in> set ZONE_PIN_MAP"
  shows "((pin, True) \<in> set cmds \<longleftrightarrow> zone \<notin> (\<Union>ob \<in> snd ` set objects. set (liz ob)))
         \<and> ((pin, False) \<in> set cmds \<longleftrightarrow> zone \<in> (\<Union>ob \<in> snd ` set objects. set (liz ob)))"
proof -
  from assms(1) have
    "cmds = map (\<lambda>(zone, pin). (pin, zone \<notin> penetrated_zones objects)) ZONE_PIN_MAP"
    unfolding check_zones_def by (rule check_zones_loop_commands)
  then have c: "cmds = [(2, ''LZ1'' \<notin> penetrated_zones objects),
                        (3, ''LZ2'' \<notin> penetrated_zones objects),
                        (14, ''LZ3'' \<notin> penetrated_zones objects),
                        (4, ''LZ4'' \<notin> penetrated_zones objects)]"
    by (simp add: ZONE_PIN_MAP_def)
  from assms(2) have
    "(zone, pin) = (''LZ1'', 2) \<or> (zone, pin) = (''LZ2'', 3)
     \<or> (zone, pin) = (''LZ3'', 14) \<or> (zone, pin) = (''LZ4'', 4)"
    by (simp add: ZONE_PIN_MAP_def)
  then have "((pin, True) \<in> set cmds \<longleftrightarrow> zone \<notin> penetrated_zones objects)
         \<and> ((pin, False) \<in> set cmds \<longleftrightarrow> zone \<in> penetrated_zones objects)"
    unfolding c by (elim disjE) simp_all
  then show ?thesis by (simp only: penetrated_zones_union)
qed

theorem check_zones_on_iff_zone_not_penetrated_witness:
  "check_zones [(1, obj_in_LZ2)] (\<lambda>pin state. Acked)
     = Inr [(2, True), (3, False), (14, True), (4, True)]
   \<and> (''LZ2'', 3) \<in> set ZONE_PIN_MAP \<and> (''LZ1'', 2) \<in> set ZONE_PIN_MAP
   \<and> ''LZ2'' \<in> (\<Union>ob \<in> snd ` set [(1, obj_in_LZ2)]. set (liz ob))
   \<and> (3, False) \<in> set [(2, True), (3, False), (14, True), (4::int, True)]
   \<and> ''LZ1'' \<notin> (\<Union>ob \<in> snd ` set [(1, obj_in_LZ2)]. set (liz ob))
   \<and> (2, True) \<in> set [(2, True), (3, False), (14, True), (4::int, True)]"
proof -
  have r: "check_zones [(1, obj_in_LZ2)] (\<lambda>pin state. Acked)
     = Inr [(2, True), (3, False), (14, True), (4, True)]"
    by (simp add: check_zones_def penetrated_zones_def obj_in_LZ2_def ZONE_PIN_MAP_def
        control_light_pin_def)
  have m: "(''LZ2'', 3) \<in> set ZONE_PIN_MAP" "(''LZ1'', 2) \<in> set ZONE_PIN_MAP"
    by (simp_all add: ZONE_PIN_MAP_def)
  from check_zones_on_iff_zone_not_penetrated [OF r m(1)] check_zones_on_iff_zone_not_penetrated [OF r m(2)] r m show ?thesis
    by simp
qed

text \<open>
  C3. The claim: whenever an identifier appears for the first time in a fetched snapshot,
  the update creates a TagState for it. The code: \<open>update_objects\<close> updates only the
  identifiers that are in the registry (\<open>if result_id in obj_dict\<close>); the tag 7, first
  seen in a snapshot after start-up, gets no object.
\<close>

theorem update_objects_ignores_new_identifier:
  "d_id (data_at 7 1 2 6) = Some 7
   \<and> initialize_objects (Some [data_at 1 0 0 5]) = [(1, obj_at 0 0 (Some 5) None None)]
   \<and> map fst (update_objects (initialize_objects (Some [data_at 1 0 0 5]))
                (Some [data_at 1 0 0 6, data_at 7 1 2 6])) = [1]"
proof -
  have i: "d_id (data_at 7 1 2 6) = Some 7" "d_id (data_at 1 0 0 5) = Some 1"
    by (simp_all add: data_at_def)
  have r: "initialize_objects (Some [data_at 1 0 0 5]) = [(1, obj_at 0 0 (Some 5) None None)]"
    by (simp add: initialize_objects_def initialize_objects_try_def i createObject_data_at
        fl_small)
  from i r show ?thesis by (simp add: update_objects_keys)
qed

text \<open>
  C3, amended. Objects are created by \<open>initialize_objects\<close> only, from the snapshot
  fetched at start-up: when no record of it raises, the registry holds exactly the
  identifiers of its records. After that the identifiers are fixed: \<open>update_objects\<close>
  and \<open>create_vectors\<close> neither add nor delete one, whatever the snapshot.
\<close>

theorem registry_identifiers_fixed_after_initialization:
  "map fst (update_objects obj_dict response) = map fst obj_dict
   \<and> map fst (create_vectors obj_dict) = map fst obj_dict
   \<and> (snd (initialize_objects_try (Some results)) = None \<longrightarrow>
        fst ` set (initialize_objects (Some results)) = {k. \<exists>r \<in> set results. d_id r = Some k})"
proof -
  have "fst ` set (initialize_objects (Some results)) = {k. \<exists>r \<in> set results. d_id r = Some k}"
    if "snd (initialize_objects_try (Some results)) = None"
  proof -
    from that obtain reg' where "initialize_loop [] results = (reg', None)"
      by (cases "initialize_loop [] results") (simp add: initialize_objects_try_def)
    with initialize_loop_keys [OF this] show ?thesis
      by (simp add: initialize_objects_def initialize_objects_try_def)
  qed
  then show ?thesis by (simp add: update_objects_keys create_vectors_keys)
qed

theorem registry_identifiers_fixed_after_initialization_witness:
  "map fst (update_objects [(1, obj_at 0 0 (Some 5) None None)] (Some [data_at 7 1 2 6])) = [1]
   \<and> map fst (create_vectors [(1, obj_at 0 0 (Some 5) None None)]) = [1]
   \<and> snd (initialize_objects_try (Some [data_at 1 0 0 5, data_at 2 3 4 5])) = None
   \<and> fst ` set (initialize_objects (Some [data_at 1 0 0 5, data_at 2 3 4 5])) = {1, 2}"
proof -
  have i: "d_id (data_at 1 0 0 5) = Some 1" "d_id (data_at 2 3 4 5) = Some 2"
    by (simp_all add: data_at_def)
  have c: "snd (initialize_objects_try (Some [data_at 1 0 0 5, data_at 2 3 4 5])) = None"
    by (simp add: initialize_objects_try_def i createObject_data_at)
  have k: "{k. \<exists>r \<in> set [data_at 1 0 0 5, data_at 2 3 4 5]. d_id r = Some k} = {1, 2}"
    using i by auto
  from registry_identifiers_fixed_after_initialization [of "[(1, obj_at 0 0 (Some 5) None None)]" "Some [data_at 7 1 2 6]"
              "[data_at 1 0 0 5, data_at 2 3 4 5]"] c k
  show ?thesis by simp
qed

text \<open>
  C9. The claim: an unhandled failure inside a cycle is caught at the cycle boundary and
  the loop proceeds to the next cycle. The code: the \<open>try\<close> of \<open>main\<close> encloses the
  \<open>while True\<close> loop, so an exception that leaves a stage ends the loop. Two cycles are
  offered; in the first the GPIO request raises an exception that is not a
  \<open>RequestException\<close>; \<open>main\<close> returns with that error and no cycle completed.
\<close>

theorem escaping_exception_ends_main_loop:
  "main env_ok [env_fault, env_ok] = (MainError RuntimeError, [], 0)"
  by (simp add: main_def set_all_lights_def ZONE_PIN_MAP_def control_light_pin_def env_ok_def
      env_fault_def initialize_objects_def initialize_objects_try_def update_objects_def
      update_objects_try_def create_vectors_def create_vectors_try_def check_zones_def
      penetrated_zones_def)

text \<open>
  C9, amended. The failures inside \<open>update_objects\<close>, \<open>create_vectors\<close> and
  \<open>send_telemetry\<close>, and the \<open>RequestException\<close> of a GPIO request, are caught inside
  the stage: as long as no GPIO request raises another exception, \<open>main\<close> is still in its
  loop after every cycle offered, whatever was fetched. An exception that leaves
  \<open>check_zones\<close> ends the loop in that cycle, with the registry as the cycle left it.
\<close>

theorem main_loop_survives_caught_failures_only:
  "((\<forall>env \<in> set (startup # envs). \<forall>pin state e. gpio_post env pin state \<noteq> OtherException e) \<longrightarrow>
      fst (main startup envs) = LoopRunning \<and> snd (snd (main startup envs)) = length envs)
   \<and> (check_zones (create_vectors (update_objects obj_dict (fetched env))) (gpio_post env) = Inl e \<longrightarrow>
        working_loop obj_dict (env # envs) n
          = (MainError e, create_vectors (update_objects obj_dict (fetched env)), n))"
proof -
  have "fst (main startup envs) = LoopRunning \<and> snd (snd (main startup envs)) = length envs"
    if a: "\<forall>env \<in> set (startup # envs). \<forall>pin state e. gpio_post env pin state \<noteq> OtherException e"
  proof -
    from a have "\<forall>pin state e. gpio_post startup pin state \<noteq> OtherException e" by simp
    then have s: "set_all_lights (gpio_post startup) False = Inr ()"
      "set_all_lights (gpio_post startup) True = Inr ()"
      by (simp_all add: set_all_lights_no_escape)
    from a have "\<forall>env \<in> set envs. \<forall>pin state e. gpio_post env pin state \<noteq> OtherException e"
      by simp
    from working_loop_runs [OF this, of "initialize_objects (fetched startup)" 0] s
    show ?thesis by (simp add: main_def)
  qed
  then show ?thesis by (simp add: Let_def)
qed

theorem main_loop_survives_caught_failures_only_witness:
  "(\<forall>pin state e. gpio_post env_start_no_pos pin state \<noteq> OtherException e)
   \<and> (\<forall>pin state e. gpio_post env_update pin state \<noteq> OtherException e)
   \<and> (\<forall>pin state e. gpio_post env_down pin state \<noteq> OtherException e)
   \<and> update_objects_try (initialize_objects (fetched env_start_no_pos)) (fetched env_update)
       = ([(1, obj_no_pos)], Some TypeError)
   \<and> fst (main env_start_no_pos [env_update, env_down, env_update]) = LoopRunning
   \<and> snd (snd (main env_start_no_pos [env_update, env_down, env_update])) = 3"
proof -
  have g: "\<forall>pin state e. gpio_post env_start_no_pos pin state \<noteq> OtherException e"
    "\<forall>pin state e. gpio_post env_update pin state \<noteq> OtherException e"
    "\<forall>pin state e. gpio_post env_down pin state \<noteq> OtherException e"
    by (simp_all add: env_start_no_pos_def env_update_def env_down_def)
  have i: "d_id (data_no_pos 1) = Some 1" "d_id (data_at 1 1 2 10) = Some 1"
    by (simp_all add: data_no_pos_def data_at_def)
  have u: "update_objects_try (initialize_objects (fetched env_start_no_pos)) (fetched env_update)
       = ([(1, obj_no_pos)], Some TypeError)"
    by (simp add: env_start_no_pos_def env_update_def initialize_objects_def
        initialize_objects_try_def update_objects_try_def i createObject_data_no_pos
        updateObject_no_pos_raises)
  from g have "\<forall>env \<in> set (env_start_no_pos # [env_update, env_down, env_update]).
                 \<forall>pin state e. gpio_post env pin state \<noteq> OtherException e"
    by simp
  with main_loop_survives_caught_failures_only [of env_start_no_pos "[env_update, env_down, env_update]"]
  have "fst (main env_start_no_pos [env_update, env_down, env_update]) = LoopRunning
        \<and> snd (snd (main env_start_no_pos [env_update, env_down, env_update])) = 3"
    by simp
  with g u show ?thesis by simp
qed

end
